theory Spec2Isabelle
  imports Main "HOL-Library.Word" "HOL-Library.Signed_Division" "HOL-Library.Product_Lexorder"
begin

unbundle bit_operations_syntax

section \<open>Driver version comparison\<close>

text \<open>
  The driver version is a \<open>LARGE_INTEGER\<close>: a 64-bit quantity whose \<open>HighPart\<close> is the
  upper and whose \<open>LowPart\<close> is the lower 32 bits. \<open>HIWORD\<close> and \<open>LOWORD\<close> are the
  platform macros taking the upper and lower 16 bits of a 32-bit value as an unsigned
  \<open>WORD\<close>. In the comparisons of the source the \<open>WORD\<close> is promoted to \<open>int\<close>, which is
  what \<open>uint\<close> does here; the \<open>int\<close> arguments are only ever compared.
\<close>

definition HighPart :: "64 word \<Rightarrow> 32 word" where
  "HighPart version = ucast (drop_bit 32 version)"

definition LowPart :: "64 word \<Rightarrow> 32 word" where
  "LowPart version = ucast version"

definition HIWORD :: "32 word \<Rightarrow> 16 word" where
  "HIWORD x = ucast (drop_bit 16 x AND 0xffff)"

definition LOWORD :: "32 word \<Rightarrow> 16 word" where
  "LOWORD x = ucast (x AND 0xffff)"

definition hasDriverVersionReached :: "64 word \<Rightarrow> int \<Rightarrow> int \<Rightarrow> int \<Rightarrow> int \<Rightarrow> bool" where
  "hasDriverVersionReached version a b c d =
     (if uint (HIWORD (HighPart version)) > a then True
      else if uint (HIWORD (HighPart version)) = a \<and>
              uint (LOWORD (HighPart version)) > b then True
      else if uint (HIWORD (HighPart version)) = a \<and>
              uint (LOWORD (HighPart version)) = b \<and>
              uint (HIWORD (LowPart version)) > c then True
      else if uint (HIWORD (HighPart version)) = a \<and>
              uint (LOWORD (HighPart version)) = b \<and>
              uint (HIWORD (LowPart version)) = c \<and>
              uint (LOWORD (LowPart version)) \<ge> d then True
      else False)"

text \<open>The (major, minor, build, revision) tuple a packed version stands for.\<close>

definition version_tuple :: "64 word \<Rightarrow> int \<times> int \<times> int \<times> int" where
  "version_tuple version =
     (uint (HIWORD (HighPart version)), uint (LOWORD (HighPart version)),
      uint (HIWORD (LowPart version)), uint (LOWORD (LowPart version)))"

text \<open>Packing four 16-bit components, major component in the top bits.\<close>

definition pack_version :: "16 word \<times> 16 word \<times> 16 word \<times> 16 word \<Rightarrow> 64 word" where
  "pack_version t =
     (case t of (a, b, c, d) \<Rightarrow>
        push_bit 48 (ucast a) OR push_bit 32 (ucast b) OR push_bit 16 (ucast c) OR ucast d)"

text \<open>The comparison of the source, read as a relation between two 16-bit 4-tuples.\<close>

definition reached :: "16 word \<times> 16 word \<times> 16 word \<times> 16 word \<Rightarrow>
                       16 word \<times> 16 word \<times> 16 word \<times> 16 word \<Rightarrow> bool" where
  "reached s t =
     (case t of (a, b, c, d) \<Rightarrow>
        hasDriverVersionReached (pack_version s) (uint a) (uint b) (uint c) (uint d))"



section \<open>Result codes and failures\<close>

text \<open>
  An \<open>HRESULT\<close> is a signed 32-bit value; the platform macro \<open>FAILED\<close> tests for a
  negative value and \<open>SUCCEEDED\<close> for a non-negative one. The named codes have their
  platform values.
\<close>

type_synonym HRESULT = "32 word"

definition FAILED :: "HRESULT \<Rightarrow> bool" where
  "FAILED hr = (hr <s 0)"

definition SUCCEEDED :: "HRESULT \<Rightarrow> bool" where
  "SUCCEEDED hr = (0 \<le>s hr)"

definition S_OK :: HRESULT where "S_OK = 0"
definition S_FALSE :: HRESULT where "S_FALSE = 1"
definition E_NOTIMPL :: HRESULT where "E_NOTIMPL = 0x80004001"
definition E_NOINTERFACE :: HRESULT where "E_NOINTERFACE = 0x80004002"
definition E_POINTER :: HRESULT where "E_POINTER = 0x80004003"
definition E_FAIL :: HRESULT where "E_FAIL = 0x80004005"
definition E_UNEXPECTED :: HRESULT where "E_UNEXPECTED = 0x8000FFFF"
definition VFW_E_NOT_CONNECTED :: HRESULT where "VFW_E_NOT_CONNECTED = 0x80040209"
definition MF_E_UNSUPPORTED_SERVICE :: HRESULT where "MF_E_UNSUPPORTED_SERVICE = 0xC00D36BA"

text \<open>
  Ways in which a call does not return at all: a division by zero, a call through a null
  pointer, and a failed \<open>assert\<close> in a build that keeps assertions.
\<close>

datatype error = DivideByZero | NullDereference | AssertionFailed

type_synonym GUID = "128 word"

section \<open>Hardware compatibility check\<close>

text \<open>
  The arguments are C \<open>int\<close>s. They are modelled as integers; the one arithmetic
  operation that can leave the 32-bit range, the product \<open>width * height\<close>, is wrapped to
  two's complement by \<open>int32\<close>, and the division is C's, truncating towards zero
  (\<open>sdiv\<close>) and trapping on a zero divisor.
\<close>

definition int32 :: "int \<Rightarrow> int" where
  "int32 x = signed_take_bit 31 x"

definition DXVA_UNSUPPORTED_LEVEL :: int where "DXVA_UNSUPPORTED_LEVEL = 1"
definition DXVA_TOO_MUCH_REF_FRAMES :: int where "DXVA_TOO_MUCH_REF_FRAMES = 2"
definition DXVA_INCOMPATIBLE_SAR :: int where "DXVA_INCOMPATIBLE_SAR = 4"

text \<open>
  The vendor identifiers of \<open>CHardwareEnv\<close> and the Windows version ordinal
  \<open>WINVERSION_VISTA\<close> are declared in headers outside the filter source; they are parameters here. What
  \<open>CHardwareEnv::get()\<close> and \<open>win_util::GetWinVersion()\<close> answer is the environment.
\<close>

record platform_constants =
  PCI_VENDOR_NVIDIA :: int
  PCI_VENDOR_S3_GRAPHICS :: int
  PCI_VENDOR_ATI :: int
  WINVERSION_VISTA :: int

record hardware_env =
  GetVideoCardVendor :: int
  GetVideoCardDeviceID :: int
  GetVideoCardDriverVersion :: "64 word"
  GetWinVersion :: int

text \<open>\<open>const int maxRefFramesDPB41 = std::min(11, 8388608 / (width * height))\<close>\<close>

definition maxRefFramesDPB41 :: "int \<Rightarrow> int \<Rightarrow> error + int" where
  "maxRefFramesDPB41 width height =
     (let area = int32 (width * height)
      in if area = 0 then Inl DivideByZero else Inr (min 11 (8388608 sdiv area)))"

text \<open>
  The vendor branches: from the default limit they give the final values of the locals
  \<open>(noLevel51Support, maxRefFrames)\<close>.
\<close>

definition vendorOverride ::
  "platform_constants \<Rightarrow> hardware_env \<Rightarrow> int \<Rightarrow> int \<Rightarrow> int \<times> int" where
  "vendorOverride k env width dpb41 =
     (let vendor = GetVideoCardVendor env;
          device = GetVideoCardDeviceID env;
          videoDriverVersion = GetVideoCardDriverVersion env
      in if PCI_VENDOR_NVIDIA k = vendor then
           (if GetWinVersion env \<ge> WINVERSION_VISTA k then
              (if hasDriverVersionReached videoDriverVersion 7 15 11 7800
               then (0, if width \<ge> 1280 then 16 else 11)
               else (1, dpb41))
            else
              (if hasDriverVersionReached videoDriverVersion 6 14 11 7800
               then (0, 14)
               else (1, dpb41)))
         else if PCI_VENDOR_S3_GRAPHICS k = vendor then (0, dpb41)
         else if PCI_VENDOR_ATI k = vendor then
           (if 0x68 = drop_bit 8 device \<or> 0x94 = drop_bit 8 device then
              (if hasDriverVersionReached videoDriverVersion 8 14 1 6105
               then (0, 16)
               else (1, dpb41))
            else (1, dpb41))
         else (1, dpb41))"

definition compatibilityFlags :: "int \<Rightarrow> int \<Rightarrow> int \<Rightarrow> int" where
  "compatibilityFlags videoLevel noLevel51Support tooMuchRefFrames =
     (let hasVideoLevelReached51 = (if videoLevel \<ge> 51 then 1 else 0)
      in (hasVideoLevelReached51 * noLevel51Support * DXVA_UNSUPPORTED_LEVEL) +
         (tooMuchRefFrames * DXVA_TOO_MUCH_REF_FRAMES))"

definition checkHWCompatibilityForH264 ::
  "platform_constants \<Rightarrow> hardware_env \<Rightarrow> int \<Rightarrow> int \<Rightarrow> int \<Rightarrow> int \<Rightarrow> error + int" where
  "checkHWCompatibilityForH264 k env width height videoLevel refFrameCount =
     (if videoLevel \<ge> 0 then
        (case maxRefFramesDPB41 width height of
           Inl e \<Rightarrow> Inl e
         | Inr dpb41 \<Rightarrow>
             (case vendorOverride k env width dpb41 of
                (noLevel51Support, maxRefFrames) \<Rightarrow>
                  Inr (compatibilityFlags videoLevel noLevel51Support
                         (if refFrameCount > maxRefFrames then 1 else 0))))
      else Inr (compatibilityFlags videoLevel 1 0))"

text \<open>A flag of the returned bit mask.\<close>

definition has_flag :: "int \<Rightarrow> int \<Rightarrow> bool" where
  "has_flag flags flag = (flags AND flag \<noteq> 0)"


section \<open>Hardware samples and their allocator\<close>

text \<open>
  A pointer that may be null is an \<open>option\<close>; a Direct3D surface is named by a number.
  A \<open>CDXVA2Sample\<close> carries its own address, which is what \<open>new\<close> returns and
  \<open>delete\<close> takes.
\<close>

type_synonym surface = nat

record CDXVA2Sample =
  address :: nat
  m_surface :: "surface option"
  m_surfaceID :: int

definition MR_BUFFER_SERVICE :: GUID where
  "MR_BUFFER_SERVICE = 0xa562248c9ac64ffc9fba3af8f8ad1a4d"

text \<open>
  \<open>QueryInterface\<close> of the surface is the platform's; it is a parameter. The last line
  of the source calls it through \<open>m_surface\<close>, which traps when the pointer is null.
\<close>

definition GetService ::
  "(surface \<Rightarrow> GUID \<Rightarrow> HRESULT) \<Rightarrow> CDXVA2Sample \<Rightarrow> GUID \<Rightarrow> GUID \<Rightarrow> error + HRESULT" where
  "GetService QueryInterface this service ID =
     (if service \<noteq> MR_BUFFER_SERVICE then Inr MF_E_UNSUPPORTED_SERVICE
      else if m_surface this \<noteq> None then Inr E_NOINTERFACE
      else (case m_surface this of
              None \<Rightarrow> Inl NullDereference
            | Some surf \<Rightarrow> Inr (QueryInterface surf ID)))"

definition setSurface :: "CDXVA2Sample \<Rightarrow> int \<Rightarrow> surface option \<Rightarrow> CDXVA2Sample" where
  "setSurface this surfaceID surf = this\<lparr>m_surface := surf, m_surfaceID := surfaceID\<rparr>"

text \<open>
  The allocator. \<open>m_lCount\<close>, \<open>m_lAllocated\<close>, \<open>m_lFree\<close> and \<open>m_bChanged\<close> are the
  members inherited from the base allocator; \<open>m_lFree\<close> is its sample list, where
  \<open>Add\<close> links a sample in at the head and \<open>RemoveHead\<close> unlinks the head. The heap
  holds the addresses of the samples that \<open>new\<close> has returned and \<open>delete\<close> has not yet
  taken, in the order of their construction; \<open>next_address\<close> is the next address
  \<open>new\<close> hands out. \<open>flushes\<close> counts the calls of \<open>FlushDXVADecoder\<close>.
\<close>

record allocator =
  m_lCount :: int
  m_lAllocated :: int
  m_lFree :: "CDXVA2Sample list"
  m_bChanged :: bool
  heap :: "nat list"
  next_address :: nat
  flushes :: nat

text \<open>
  \<open>m_surfaces\<close> is the filter's vector of surface pointers. With a negative index
  the source would read before the vector; the allocator never passes one, and the
  answer there is taken to be null.
\<close>

definition GetSurface :: "surface option list \<Rightarrow> int \<Rightarrow> surface option" where
  "GetSurface m_surfaces n =
     (if n < int (length m_surfaces) then (if 0 \<le> n then m_surfaces ! nat n else None)
      else None)"

text \<open>\<open>Free\<close>: flush the decoder, delete every sample on the free list, reset the count.\<close>

definition Free :: "allocator \<Rightarrow> allocator" where
  "Free this =
     this\<lparr>flushes := Suc (flushes this),
          heap := filter (\<lambda>a. a \<notin> address ` set (m_lFree this)) (heap this),
          m_lFree := [],
          m_lAllocated := 0\<rparr>"

text \<open>
  The \<open>for\<close> loop of \<open>Alloc\<close>, from the current \<open>m_lAllocated\<close> downwards. The
  constructor of the sample receives \<open>&r\<close>: \<open>construct\<close> maps the slot index and the
  incoming \<open>r\<close> to the value \<open>r\<close> has after construction.
\<close>

function Alloc_loop ::
  "(int \<Rightarrow> HRESULT \<Rightarrow> HRESULT) \<Rightarrow> surface option list \<Rightarrow> HRESULT \<Rightarrow> allocator \<Rightarrow>
   HRESULT \<times> allocator" where
  "Alloc_loop construct m_surfaces r this =
     (if m_lAllocated this \<ge> 0 then
        (let sample = \<lparr>address = next_address this, m_surface = None, m_surfaceID = 0\<rparr>;
             this1 = this\<lparr>heap := heap this @ [next_address this],
                          next_address := Suc (next_address this)\<rparr>;
             r1 = construct (m_lAllocated this) r
         in if FAILED r1 then (r1, this1)
            else (case GetSurface m_surfaces (m_lAllocated this1) of
                    None \<Rightarrow> (E_UNEXPECTED, this1)
                  | Some surf \<Rightarrow>
                      (let sample1 = setSurface sample (m_lAllocated this1) (Some surf);
                           this2 = this1\<lparr>m_lFree := sample1 # m_lFree this1\<rparr>
                       in Alloc_loop construct m_surfaces r1
                            (this2\<lparr>m_lAllocated := m_lAllocated this2 - 1\<rparr>))))
      else (r, this))"
  by pat_completeness auto
termination
  by (relation "measure (\<lambda>(construct, m_surfaces, r, this). nat (m_lAllocated this + 1))")
     auto

text \<open>
  \<open>Alloc\<close>. \<open>base_Alloc\<close> is the result of the base allocator's \<open>Alloc\<close>, which
  belongs to the base class library. The counts are C \<open>long\<close>s; \<open>m_lCount - 1\<close> and
  the decrement of a non-negative \<open>m_lAllocated\<close> stay within their range for every
  count but the least 32-bit value, and are modelled on the integers.
\<close>

definition Alloc ::
  "HRESULT \<Rightarrow> (int \<Rightarrow> HRESULT \<Rightarrow> HRESULT) \<Rightarrow> surface option list \<Rightarrow> allocator \<Rightarrow>
   HRESULT \<times> allocator" where
  "Alloc base_Alloc construct m_surfaces this =
     (if FAILED base_Alloc then (base_Alloc, this)
      else
        (let this1 = Free this;
             (r, this2) = Alloc_loop construct m_surfaces base_Alloc
                            (this1\<lparr>m_lAllocated := m_lCount this1 - 1\<rparr>)
         in if FAILED r then (r, Free this2)
            else (r, this2\<lparr>m_bChanged := False\<rparr>)))"


section \<open>Legacy hardware activation\<close>

text \<open>
  The pre-decode context answers the stream's width, height, level and reference frame
  count. The three decoder classes are declared outside the filter source; a decoder value
  records which class was instantiated and with which constructor arguments.
  \<open>GetDecoderID\<close>, a method of those classes, is a parameter.
\<close>

record pre_decode =
  GetWidth :: int
  GetHeight :: int
  GetVideoLevel :: int
  GetRefFrameCount :: int

datatype decoder =
    CH264DXVA1Decoder GUID int
  | CH264DXVA2Decoder GUID
  | CH264SWDecoder

text \<open>
  The structures of the acceleration interface, with the members the filter reads or
  writes; \<open>other_members\<close> stands for the rest of a configuration.
\<close>

type_synonym D3DFORMAT = "32 word"

record DXVA2_ConfigPictureDecode =
  ConfigBitstreamRaw :: "32 word"
  other_members :: nat

record DXVA2_VideoDesc =
  SampleWidth :: int
  SampleHeight :: int
  UABProtectionLevel :: int
  Format :: D3DFORMAT

record filter_state =
  m_preDecode :: "pre_decode option"
  m_decoder :: "decoder option"
  m_averageTimePerFrame :: "64 word"
  m_config :: "DXVA2_ConfigPictureDecode option"

definition ActivateDXVA1 ::
  "platform_constants \<Rightarrow> hardware_env \<Rightarrow> (decoder \<Rightarrow> GUID) \<Rightarrow> filter_state \<Rightarrow>
   nat option \<Rightarrow> GUID option \<Rightarrow> int \<Rightarrow> error + (HRESULT \<times> filter_state)" where
  "ActivateDXVA1 k env GetDecoderID this accel decoderID surfaceCount =
     (case m_preDecode this of
        None \<Rightarrow> Inr (E_FAIL, this)
      | Some preDecode \<Rightarrow>
          (case decoderID of
             None \<Rightarrow> Inr (E_POINTER, this)
           | Some decID \<Rightarrow>
               if accel = None then Inr (E_POINTER, this)
               else if (case m_decoder this of
                          Some dec \<Rightarrow> GetDecoderID dec = decID
                        | None \<Rightarrow> False)
               then Inr (S_OK, this)
               else
                 (let this1 = this\<lparr>m_decoder := None\<rparr>
                  in case checkHWCompatibilityForH264 k env
                            (GetWidth preDecode) (GetHeight preDecode)
                            (GetVideoLevel preDecode) (GetRefFrameCount preDecode) of
                       Inl e \<Rightarrow> Inl e
                     | Inr campatible \<Rightarrow>
                         if DXVA_UNSUPPORTED_LEVEL = campatible then Inr (E_FAIL, this1)
                         else Inr (S_OK, this1\<lparr>m_decoder :=
                                           Some (CH264DXVA1Decoder decID surfaceCount)\<rparr>))))"

section \<open>Modern hardware negotiation\<close>

definition DXVA2_ModeH264_E :: GUID where
  "DXVA2_ModeH264_E = 0x1b81be68a0c711d3b98400c04f2e73c5"
definition DXVA2_ModeH264_F :: GUID where
  "DXVA2_ModeH264_F = 0x1b81be69a0c711d3b98400c04f2e73c5"
definition MEDIASUBTYPE_NV12 :: GUID where
  "MEDIASUBTYPE_NV12 = 0x3231564E00000010800000AA00389B71"
definition MEDIASUBTYPE_YV12 :: GUID where
  "MEDIASUBTYPE_YV12 = 0x3231565900000010800000AA00389B71"
definition MEDIASUBTYPE_YUY2 :: GUID where
  "MEDIASUBTYPE_YUY2 = 0x3259555900000010800000AA00389B71"

text \<open>\<open>MAKEFOURCC(c0, c1, c2, c3)\<close> packs four character codes, the first lowest.\<close>

definition MAKEFOURCC :: "char \<Rightarrow> char \<Rightarrow> char \<Rightarrow> char \<Rightarrow> 32 word" where
  "MAKEFOURCC c0 c1 c2 c3 =
     of_char c0 OR push_bit 8 (of_char c1) OR push_bit 16 (of_char c2) OR
     push_bit 24 (of_char c3)"

text \<open>The table \<open>supportedFormats\<close>: sub type, plane count, four-character code.\<close>

definition supportedFormats :: "(GUID \<times> int \<times> 32 word) list" where
  "supportedFormats =
     [(DXVA2_ModeH264_E, 1, MAKEFOURCC CHR ''d'' CHR ''x'' CHR ''v'' CHR ''a''),
      (DXVA2_ModeH264_F, 1, MAKEFOURCC CHR ''d'' CHR ''x'' CHR ''v'' CHR ''a''),
      (MEDIASUBTYPE_NV12, 1, MAKEFOURCC CHR ''d'' CHR ''x'' CHR ''v'' CHR ''a''),
      (MEDIASUBTYPE_NV12, 1, MAKEFOURCC CHR ''D'' CHR ''X'' CHR ''V'' CHR ''A''),
      (MEDIASUBTYPE_NV12, 1, MAKEFOURCC CHR ''D'' CHR ''x'' CHR ''V'' CHR ''A''),
      (MEDIASUBTYPE_NV12, 1, MAKEFOURCC CHR ''D'' CHR ''X'' CHR ''v'' CHR ''A''),
      (MEDIASUBTYPE_YV12, 3, MAKEFOURCC CHR ''Y'' CHR ''V'' CHR ''1'' CHR ''2''),
      (MEDIASUBTYPE_YUY2, 3, MAKEFOURCC CHR ''Y'' CHR ''U'' CHR ''Y'' CHR ''2'')]"

fun IsFormatSupported_from :: "(GUID \<times> int \<times> 32 word) list \<Rightarrow> GUID \<Rightarrow> bool" where
  "IsFormatSupported_from [] formatID = False"
| "IsFormatSupported_from (entry # entries) formatID =
     (if formatID = fst entry then True else IsFormatSupported_from entries formatID)"

definition IsFormatSupported :: "GUID \<Rightarrow> bool" where
  "IsFormatSupported formatID = IsFormatSupported_from supportedFormats formatID"

text \<open>
  What the renderer and the acceleration services answer. Each query is answered by its
  arguments; an array that a query returns is a list, and the count returned with it is
  the length of the list. \<open>AvailableSurfaceTypes\<close> lists the answers of
  \<open>GetAvailableSurfaceTypeByIndex\<close> for the indices from 0 on; at the first index past
  the list the query fails with \<open>no_more_surface_types\<close>.
\<close>

record acceleration_services =
  GetConnected :: bool
  QueryInterface_IMFGetService :: HRESULT
  GetService_IDirect3DDeviceManager9 :: HRESULT
  OpenDeviceHandle :: HRESULT
  GetVideoService_DecoderService :: HRESULT
  GetDecoderDeviceGuids :: "HRESULT \<times> GUID list"
  GetDecoderRenderTargets :: "GUID \<Rightarrow> HRESULT \<times> D3DFORMAT list"
  GetDecoderConfigurations ::
    "GUID \<Rightarrow> DXVA2_VideoDesc \<Rightarrow> HRESULT \<times> DXVA2_ConfigPictureDecode list"
  GetService_VideoMemoryConfiguration :: HRESULT
  AvailableSurfaceTypes :: "(HRESULT \<times> int) list"
  no_more_surface_types :: HRESULT
  SetSurfaceType :: "int \<Rightarrow> HRESULT"
  GetVideoService_AccelerationService :: HRESULT
  CreateSurface :: "int \<Rightarrow> int \<Rightarrow> int \<Rightarrow> D3DFORMAT \<Rightarrow> HRESULT"
  CreateVideoDecoder ::
    "GUID \<Rightarrow> DXVA2_VideoDesc \<Rightarrow> DXVA2_ConfigPictureDecode option \<Rightarrow> int \<Rightarrow> HRESULT"

text \<open>
  The inner loop of \<open>ConfirmDXVA2UncompFormat\<close> over the configurations: whether it
  returned from inside the loop, and the value \<open>*selectedConfig\<close> has afterwards.
\<close>

fun find_configuration ::
  "DXVA2_ConfigPictureDecode list \<Rightarrow> DXVA2_ConfigPictureDecode \<Rightarrow>
   bool \<times> DXVA2_ConfigPictureDecode" where
  "find_configuration [] selectedConfig = (False, selectedConfig)"
| "find_configuration (config # configs) selectedConfig =
     (if 2 = ConfigBitstreamRaw config then (True, config)
      else find_configuration configs config)"

text \<open>
  The outer loop over the render target formats. The two output parameters enter with
  the values the caller's variables hold and leave with the values written.
\<close>

fun confirm_formats ::
  "acceleration_services \<Rightarrow> pre_decode option \<Rightarrow> GUID \<Rightarrow> D3DFORMAT list \<Rightarrow>
   DXVA2_ConfigPictureDecode \<times> DXVA2_VideoDesc \<Rightarrow>
   error + (HRESULT \<times> DXVA2_ConfigPictureDecode \<times> DXVA2_VideoDesc)" where
  "confirm_formats svc preDecode decoderID [] (selectedConfig, selectedFormat) =
     Inr (E_FAIL, selectedConfig, selectedFormat)"
| "confirm_formats svc preDecode decoderID (fmt # formats) (selectedConfig, selectedFormat) =
     (if MAKEFOURCC CHR ''N'' CHR ''V'' CHR ''1'' CHR ''2'' \<noteq> fmt
      then confirm_formats svc preDecode decoderID formats (selectedConfig, selectedFormat)
      else
        (case preDecode of
           None \<Rightarrow> Inl NullDereference
         | Some pd \<Rightarrow>
             (let desc = \<lparr>SampleWidth = GetWidth pd, SampleHeight = GetHeight pd,
                          UABProtectionLevel = 1, Format = fmt\<rparr>
              in case GetDecoderConfigurations svc decoderID desc of
                   (r, configs) \<Rightarrow>
                     if FAILED r
                     then confirm_formats svc preDecode decoderID formats
                            (selectedConfig, selectedFormat)
                     else
                       (case find_configuration configs selectedConfig of
                          (True, config) \<Rightarrow> Inr (S_OK, config, desc)
                        | (False, config) \<Rightarrow>
                            Inr (if length configs \<noteq> 0 then S_OK else E_FAIL,
                                 config, desc)))))"

definition ConfirmDXVA2UncompFormat ::
  "acceleration_services \<Rightarrow> filter_state \<Rightarrow> GUID \<Rightarrow>
   DXVA2_ConfigPictureDecode \<times> DXVA2_VideoDesc \<Rightarrow>
   error + (HRESULT \<times> DXVA2_ConfigPictureDecode \<times> DXVA2_VideoDesc)" where
  "ConfirmDXVA2UncompFormat svc this decoderID selected =
     (case GetDecoderRenderTargets svc decoderID of
        (r, formats) \<Rightarrow>
          if FAILED r then Inr (r, selected)
          else confirm_formats svc (m_preDecode this) decoderID formats selected)"


text \<open>\<open>configureEVRForDXVA2\<close> and its loop over the surface types.\<close>

definition DXVA2_SurfaceType_DecoderRenderTarget :: int where
  "DXVA2_SurfaceType_DecoderRenderTarget = 0"

fun configure_surface_type :: "acceleration_services \<Rightarrow> (HRESULT \<times> int) list \<Rightarrow> HRESULT" where
  "configure_surface_type svc [] = no_more_surface_types svc"
| "configure_surface_type svc ((r, surfType) # answers) =
     (if FAILED r then r
      else if DXVA2_SurfaceType_DecoderRenderTarget = surfType
      then SetSurfaceType svc surfType
      else configure_surface_type svc answers)"

definition configureEVRForDXVA2 :: "acceleration_services \<Rightarrow> HRESULT" where
  "configureEVRForDXVA2 svc =
     (if FAILED (GetService_VideoMemoryConfiguration svc)
      then GetService_VideoMemoryConfiguration svc
      else configure_surface_type svc (AvailableSurfaceTypes svc))"

definition getDecodeSurfacesCount :: "platform_constants \<Rightarrow> hardware_env \<Rightarrow> int" where
  "getDecodeSurfacesCount k env =
     (if GetWinVersion env \<ge> WINVERSION_VISTA k then 22 else 16)"

text \<open>
  The hardware resources requested from the services, in order: the surfaces of a
  \<open>CreateSurface\<close> call (width, height, number of back buffers) and a video decoder.
\<close>

datatype resource_call =
    CallCreateSurface int int int
  | CallCreateVideoDecoder GUID int

definition CreateDXVA2Decoder ::
  "platform_constants \<Rightarrow> hardware_env \<Rightarrow> acceleration_services \<Rightarrow> filter_state \<Rightarrow>
   GUID \<Rightarrow> DXVA2_VideoDesc \<Rightarrow> error + (HRESULT \<times> filter_state \<times> resource_call list)" where
  "CreateDXVA2Decoder k env svc this decoderID videoDesc =
     (if FAILED (GetVideoService_AccelerationService svc)
      then Inr (GetVideoService_AccelerationService svc, this, [])
      else
        (let surfaceCount = getDecodeSurfacesCount k env
         in case m_preDecode this of
              None \<Rightarrow> Inl NullDereference
            | Some pd \<Rightarrow>
                (let r = CreateSurface svc (GetWidth pd) (GetHeight pd) (surfaceCount - 1)
                           (Format videoDesc);
                     calls = [CallCreateSurface (GetWidth pd) (GetHeight pd)
                                (surfaceCount - 1)]
                 in if FAILED r then Inr (r, this, calls)
                    else
                      (let r2 = CreateVideoDecoder svc decoderID videoDesc (m_config this)
                                  surfaceCount;
                           calls2 = calls @ [CallCreateVideoDecoder decoderID surfaceCount]
                       in if FAILED r2 then Inr (r2, this, calls2)
                          else Inr (r2,
                                    this\<lparr>m_decoder := Some (CH264DXVA2Decoder decoderID)\<rparr>,
                                    calls2)))))"

text \<open>
  The loop of \<open>ActivateDXVA2\<close> over the decoder device identities. \<open>selected\<close> is what
  the loop body's two local variables hold before \<open>ConfirmDXVA2UncompFormat\<close> writes
  them.
\<close>

fun try_decoder_devices ::
  "platform_constants \<Rightarrow> hardware_env \<Rightarrow> acceleration_services \<Rightarrow> filter_state \<Rightarrow>
   DXVA2_ConfigPictureDecode \<times> DXVA2_VideoDesc \<Rightarrow> GUID list \<Rightarrow>
   error + (HRESULT \<times> filter_state \<times> resource_call list)" where
  "try_decoder_devices k env svc this selected [] = Inr (E_FAIL, this, [])"
| "try_decoder_devices k env svc this selected (devGUID # devGUIDs) =
     (if \<not> IsFormatSupported devGUID
      then try_decoder_devices k env svc this selected devGUIDs
      else
        (case ConfirmDXVA2UncompFormat svc this devGUID selected of
           Inl e \<Rightarrow> Inl e
         | Inr (r, selectedConfig, selectedFormat) \<Rightarrow>
             if FAILED r then try_decoder_devices k env svc this selected devGUIDs
             else if FAILED (configureEVRForDXVA2 svc)
             then Inr (configureEVRForDXVA2 svc, this, [])
             else CreateDXVA2Decoder k env svc (this\<lparr>m_config := Some selectedConfig\<rparr>)
                    devGUID selectedFormat))"

definition ActivateDXVA2 ::
  "platform_constants \<Rightarrow> hardware_env \<Rightarrow> acceleration_services \<Rightarrow> filter_state \<Rightarrow>
   DXVA2_ConfigPictureDecode \<times> DXVA2_VideoDesc \<Rightarrow>
   error + (HRESULT \<times> filter_state \<times> resource_call list)" where
  "ActivateDXVA2 k env svc this selected =
     (if \<not> GetConnected svc then Inr (VFW_E_NOT_CONNECTED, this, [])
      else if FAILED (QueryInterface_IMFGetService svc)
      then Inr (QueryInterface_IMFGetService svc, this, [])
      else if FAILED (GetService_IDirect3DDeviceManager9 svc)
      then Inr (GetService_IDirect3DDeviceManager9 svc, this, [])
      else if FAILED (OpenDeviceHandle svc) then Inr (OpenDeviceHandle svc, this, [])
      else if FAILED (GetVideoService_DecoderService svc)
      then Inr (GetVideoService_DecoderService svc, this, [])
      else
        (case GetDecoderDeviceGuids svc of
           (r, devGUIDs) \<Rightarrow>
             if FAILED r then Inr (r, this, [])
             else try_decoder_devices k env svc this selected devGUIDs))"

text \<open>
  \<open>CompleteConnect\<close>. \<open>CreateCodec\<close> is what the codec library returns for the input
  type, \<open>Init\<close> the initialisation of an already activated decoder, and
  \<open>base_CompleteConnect\<close> the result of the base filter's \<open>CompleteConnect\<close>.
\<close>

datatype PIN_DIRECTION = PINDIR_INPUT | PINDIR_OUTPUT

definition VFW_E_TYPE_NOT_ACCEPTED :: HRESULT where
  "VFW_E_TYPE_NOT_ACCEPTED = 0x8004022A"

definition CompleteConnect ::
  "platform_constants \<Rightarrow> hardware_env \<Rightarrow> acceleration_services \<Rightarrow> (decoder \<Rightarrow> bool) \<Rightarrow>
   pre_decode option \<Rightarrow> HRESULT \<Rightarrow> DXVA2_ConfigPictureDecode \<times> DXVA2_VideoDesc \<Rightarrow>
   filter_state \<Rightarrow> PIN_DIRECTION \<Rightarrow>
   error + (HRESULT \<times> filter_state \<times> resource_call list)" where
  "CompleteConnect k env svc Init CreateCodec base_CompleteConnect selected this dir =
     (case dir of
        PINDIR_INPUT \<Rightarrow>
          (let this1 = this\<lparr>m_preDecode := CreateCodec\<rparr>
           in if m_preDecode this1 = None then Inr (VFW_E_TYPE_NOT_ACCEPTED, this1, [])
              else Inr (base_CompleteConnect, this1, []))
      | PINDIR_OUTPUT \<Rightarrow>
          (let this1 = (case m_decoder this of
                          Some dec \<Rightarrow> if \<not> Init dec then this\<lparr>m_decoder := None\<rparr> else this
                        | None \<Rightarrow> this)
           in if m_decoder this1 = None then
                (case ActivateDXVA2 k env svc this1 selected of
                   Inl e \<Rightarrow> Inl e
                 | Inr (r, this2, calls) \<Rightarrow>
                     if \<not> SUCCEEDED r
                     then Inr (base_CompleteConnect,
                               this2\<lparr>m_decoder := Some CH264SWDecoder\<rparr>, calls)
                     else Inr (base_CompleteConnect, this2, calls))
              else Inr (base_CompleteConnect, this1, [])))"

text \<open>
  The description \<open>ConfirmDXVA2UncompFormat\<close> builds for an NV12 render target of the
  stream.
\<close>

definition nv12_desc :: "pre_decode \<Rightarrow> DXVA2_VideoDesc" where
  "nv12_desc pd =
     \<lparr>SampleWidth = GetWidth pd, SampleHeight = GetHeight pd, UABProtectionLevel = 1,
      Format = MAKEFOURCC CHR ''N'' CHR ''V'' CHR ''1'' CHR ''2''\<rparr>"


section \<open>Decode dispatch\<close>

text \<open>
  What \<open>Receive\<close> does to the outside, in order: deliveries downstream, the zero fill
  of the padding (offset from the sample's data pointer, number of bytes), the time
  update of the pre-decode context, and the calls into the output allocator and the
  active decoder.
\<close>

datatype event =
    EvDeliverInput
  | EvMemset int int
  | EvUpdateTime "64 word" "64 word"
  | EvInitializeOutputSample
  | EvDecode int "32 word"
  | EvDisplayNextFrame
  | EvDeliver

text \<open>
  The collaborators of the loop act on a state \<open>'w\<close> of their own (the decoder's
  buffers, the allocator, the renderer). \<open>Decode\<close> receives the offset of
  \<open>dataStart\<close>, \<open>dataRemaining\<close> and the two time stamps, and answers its result
  together with the value it leaves in \<open>usedBytes\<close>.
\<close>

record 'w collaborators =
  InitializeOutputSample :: "'w \<Rightarrow> HRESULT \<times> 'w"
  Decode :: "'w \<Rightarrow> int \<Rightarrow> 32 word \<Rightarrow> 64 word \<Rightarrow> 64 word \<Rightarrow> (HRESULT \<times> 32 word) \<times> 'w"
  DisplayNextFrame :: "'w \<Rightarrow> HRESULT \<times> 'w"
  Deliver :: "'w \<Rightarrow> HRESULT \<times> 'w"

text \<open>
  The \<open>while\<close> loop of \<open>Receive\<close>. \<open>dataRemaining\<close> and \<open>usedBytes\<close> are 32-bit
  \<open>int\<close>s, compared as signed values; the subtraction wraps. The loop need not
  terminate: not returning is the value \<open>None\<close>.
\<close>

partial_function (option) Receive_loop ::
  "'w collaborators \<Rightarrow> 64 word \<Rightarrow> 64 word \<Rightarrow> HRESULT \<Rightarrow> int \<Rightarrow> 32 word \<Rightarrow> 'w \<Rightarrow>
   event list \<Rightarrow> (HRESULT \<times> 'w \<times> event list) option" where
  "Receive_loop c start stop r dataStart dataRemaining w tr =
     (if 0 <s dataRemaining then
        (case InitializeOutputSample c w of
           (r1, w1) \<Rightarrow>
             if FAILED r1 then Some (r1, w1, tr @ [EvInitializeOutputSample])
             else
               (case Decode c w1 dataStart dataRemaining start stop of
                  ((r2, usedBytes), w2) \<Rightarrow>
                    if S_FALSE = r2
                    then Some (S_OK, w2,
                               tr @ [EvInitializeOutputSample, EvDecode dataStart dataRemaining])
                    else if FAILED r2
                    then Some (r2, w2,
                               tr @ [EvInitializeOutputSample, EvDecode dataStart dataRemaining])
                    else
                      (case DisplayNextFrame c w2 of
                         (r3, w3) \<Rightarrow>
                           (case (if E_NOTIMPL = r3
                                  then (case Deliver c w3 of
                                          (r4, w4) \<Rightarrow> (r4, w4, [EvDeliver]))
                                  else (r3, w3, [])) of
                              (r4, w4, delivered) \<Rightarrow>
                                if FAILED r4
                                then Some (r4, w4,
                                           tr @ [EvInitializeOutputSample,
                                                 EvDecode dataStart dataRemaining,
                                                 EvDisplayNextFrame] @ delivered)
                                else Receive_loop c start stop r4
                                       (dataStart + sint usedBytes)
                                       (dataRemaining - usedBytes) w4
                                       (tr @ [EvInitializeOutputSample,
                                              EvDecode dataStart dataRemaining,
                                              EvDisplayNextFrame] @ delivered)))))
      else Some (r, w, tr))"

text \<open>
  The input sample, as \<open>Receive\<close> reads it, and \<open>Receive\<close> itself.
  \<open>padding\<close> is \<open>CFFMPEG::GetInputBufferPaddingSize()\<close>. \<open>NDEBUG\<close> tells whether
  the build compiles \<open>assert\<close> away; where it does not, a failed \<open>assert\<close> aborts.
\<close>

record media_sample =
  dwStreamId :: "32 word"
  GetPointer :: HRESULT
  GetActualDataLength :: "32 word"
  GetSize :: "32 word"
  GetTime :: "HRESULT \<times> 64 word \<times> 64 word"

definition AM_STREAM_MEDIA :: "32 word" where
  "AM_STREAM_MEDIA = 0"

definition INT64_MIN :: "64 word" where
  "INT64_MIN = 0x8000000000000000"

text \<open>
  The stop time \<open>Receive\<close> works with: a stop that is not after the start, and is not
  the least 64-bit value, is replaced by the start plus the average frame duration.
\<close>

definition adjusted_stop :: "filter_state \<Rightarrow> 64 word \<Rightarrow> 64 word \<Rightarrow> 64 word" where
  "adjusted_stop this start stop0 =
     (if stop0 \<le>s start \<and> stop0 \<noteq> INT64_MIN
      then start + m_averageTimePerFrame this else stop0)"

definition Receive ::
  "bool \<Rightarrow> 32 word \<Rightarrow> 'w collaborators \<Rightarrow> filter_state \<Rightarrow> media_sample \<Rightarrow> 'w \<Rightarrow>
   (error + HRESULT \<times> 'w \<times> event list) option" where
  "Receive NDEBUG padding c this inSample w =
     (if dwStreamId inSample \<noteq> AM_STREAM_MEDIA then
        (case Deliver c w of (r, w') \<Rightarrow> Some (Inr (r, w', [EvDeliverInput])))
      else if m_decoder this = None then
        (if NDEBUG then Some (Inr (E_UNEXPECTED, w, [])) else Some (Inl AssertionFailed))
      else if FAILED (GetPointer inSample) then Some (Inr (GetPointer inSample, w, []))
      else
        (let dataLength = GetActualDataLength inSample;
             minDataSize = dataLength + padding
         in if GetSize inSample <s minDataSize \<and> \<not> NDEBUG then Some (Inl AssertionFailed)
            else
              (case GetTime inSample of
                 (r, start, stop0) \<Rightarrow>
                   if FAILED r
                   then Some (Inr (r, w, [EvMemset (sint dataLength) (sint padding)]))
                   else
                     (let stop = adjusted_stop this start stop0
                      in case m_preDecode this of
                           None \<Rightarrow> Some (Inl NullDereference)
                         | Some pd \<Rightarrow>
                             map_option Inr
                               (Receive_loop c start stop r 0 dataLength w
                                  [EvMemset (sint dataLength) (sint padding),
                                   EvUpdateTime start stop])))))"

text \<open>
  Whether a zero fill stays inside a buffer of \<open>bufferSize\<close> bytes that starts at the data
  pointer; the other events write nothing to the sample.
\<close>

fun write_in_bounds :: "int \<Rightarrow> event \<Rightarrow> bool" where
  "write_in_bounds bufferSize (EvMemset off n) = (0 \<le> off \<and> off + n \<le> bufferSize)"
| "write_in_bounds bufferSize other = True"


section \<open>Concrete platforms and inputs\<close>

text \<open>
  The PCI vendor identifiers in use and the Windows version ordinals of the version
  helper (Vista is 4, Windows 7 is 6); a Windows 7 machine with an Intel adapter, to
  which none of the three vendor branches applies.
\<close>

definition pci_constants :: platform_constants where
  "pci_constants =
     \<lparr>PCI_VENDOR_NVIDIA = 0x10DE, PCI_VENDOR_S3_GRAPHICS = 0x5333,
      PCI_VENDOR_ATI = 0x1002, WINVERSION_VISTA = 4\<rparr>"

definition intel_win7 :: hardware_env where
  "intel_win7 =
     \<lparr>GetVideoCardVendor = 0x8086, GetVideoCardDeviceID = 0x0046,
      GetVideoCardDriverVersion = 0x0008000F000A0942, GetWinVersion = 6\<rparr>"

text \<open>A 1920 x 1080 stream of level 5.1 with 16 reference frames, nothing activated yet.\<close>

definition level51_stream :: filter_state where
  "level51_stream =
     \<lparr>m_preDecode = Some \<lparr>GetWidth = 1920, GetHeight = 1080, GetVideoLevel = 51,
                           GetRefFrameCount = 16\<rparr>,
      m_decoder = None, m_averageTimePerFrame = 1, m_config = None\<rparr>"

text \<open>
  \<open>GetDecoderID\<close> as the constructors of the hardware decoders suggest: the identity
  the decoder was created for, and the null identity for the software decoder.
\<close>

fun decoder_identity :: "decoder \<Rightarrow> GUID" where
  "decoder_identity (CH264DXVA1Decoder decoderID surfaceCount) = decoderID"
| "decoder_identity (CH264DXVA2Decoder decoderID) = decoderID"
| "decoder_identity CH264SWDecoder = 0"

text \<open>
  Acceleration services that offer one decoder device, \<open>DXVA2_ModeH264_E\<close>, with an
  NV12 render target and two configurations, neither of them with
  \<open>ConfigBitstreamRaw = 2\<close>; and every call succeeds.
\<close>

definition D3DFMT_NV12 :: D3DFORMAT where
  "D3DFMT_NV12 = MAKEFOURCC CHR ''N'' CHR ''V'' CHR ''1'' CHR ''2''"

definition two_configs :: "DXVA2_ConfigPictureDecode list" where
  "two_configs =
     [\<lparr>ConfigBitstreamRaw = 0, other_members = 1\<rparr>,
      \<lparr>ConfigBitstreamRaw = 1, other_members = 2\<rparr>]"

definition nv12_services :: acceleration_services where
  "nv12_services =
     \<lparr>GetConnected = True,
      QueryInterface_IMFGetService = S_OK,
      GetService_IDirect3DDeviceManager9 = S_OK,
      OpenDeviceHandle = S_OK,
      GetVideoService_DecoderService = S_OK,
      GetDecoderDeviceGuids = (S_OK, [DXVA2_ModeH264_E]),
      GetDecoderRenderTargets = (\<lambda>decoderID. (S_OK, [D3DFMT_NV12])),
      GetDecoderConfigurations = (\<lambda>decoderID desc. (S_OK, two_configs)),
      GetService_VideoMemoryConfiguration = S_OK,
      AvailableSurfaceTypes = [(S_OK, 0)],
      no_more_surface_types = E_FAIL,
      SetSurfaceType = (\<lambda>surfType. S_OK),
      GetVideoService_AccelerationService = S_OK,
      CreateSurface = (\<lambda>width height backBuffers fmt. S_OK),
      CreateVideoDecoder = (\<lambda>decoderID desc config surfaceCount. S_OK)\<rparr>"

definition unwritten :: "DXVA2_ConfigPictureDecode \<times> DXVA2_VideoDesc" where
  "unwritten =
     (\<lparr>ConfigBitstreamRaw = 0, other_members = 0\<rparr>,
      \<lparr>SampleWidth = 0, SampleHeight = 0, UABProtectionLevel = 0, Format = 0\<rparr>)"

text \<open>An allocator for two samples, with nothing allocated yet.\<close>

definition fresh_allocator :: allocator where
  "fresh_allocator =
     \<lparr>m_lCount = 2, m_lAllocated = 0, m_lFree = [], m_bChanged = True,
      heap = [], next_address = 0, flushes = 0\<rparr>"

text \<open>The interface identifier of a Direct3D surface, which a renderer asks for.\<close>

definition IID_IDirect3DSurface9 :: GUID where
  "IID_IDirect3DSurface9 = 0x0CFBAF3A9FF6429A99B3A2796AF8B89B"

definition new_sample :: CDXVA2Sample where
  "new_sample = \<lparr>address = 0, m_surface = None, m_surfaceID = 0\<rparr>"

text \<open>
  The same services with no render target for any decoder device, and with a single
  decoder device that is not in the table of supported formats.
\<close>

definition no_target_services :: acceleration_services where
  "no_target_services = nv12_services\<lparr>GetDecoderRenderTargets := (\<lambda>decoderID. (S_OK, []))\<rparr>"

definition unknown_device_services :: acceleration_services where
  "unknown_device_services = nv12_services\<lparr>GetDecoderDeviceGuids := (S_OK, [1])\<rparr>"

text \<open>
  Collaborators for \<open>Receive\<close>, with the number of deliveries as their state: the
  output allocator always has a buffer, the decoder has no reorder step of its own
  (\<open>E_NOTIMPL\<close>), and the renderer accepts every frame. The first decoder consumes one
  byte per call, the second all remaining bytes, the third none, and the fourth asks for
  more input.
\<close>

definition decoder_with :: "(32 word \<Rightarrow> HRESULT \<times> 32 word) \<Rightarrow> nat collaborators" where
  "decoder_with answer =
     \<lparr>InitializeOutputSample = (\<lambda>w. (S_OK, w)),
      Decode = (\<lambda>w dataStart dataRemaining start stop. (answer dataRemaining, w)),
      DisplayNextFrame = (\<lambda>w. (E_NOTIMPL, w)),
      Deliver = (\<lambda>w. (S_OK, Suc w))\<rparr>"

definition bytewise_decoder :: "nat collaborators" where
  "bytewise_decoder = decoder_with (\<lambda>dataRemaining. (S_OK, 1))"

definition greedy_decoder :: "nat collaborators" where
  "greedy_decoder = decoder_with (\<lambda>dataRemaining. (S_OK, dataRemaining))"

definition stuck_decoder :: "nat collaborators" where
  "stuck_decoder = decoder_with (\<lambda>dataRemaining. (S_OK, 0))"

definition hungry_decoder :: "nat collaborators" where
  "hungry_decoder = decoder_with (\<lambda>dataRemaining. (S_FALSE, dataRemaining))"

text \<open>
  A filter with the software decoder active, and a media sample whose 4096 bytes of
  payload fill its buffer of 4096 bytes.
\<close>

definition decoding_filter :: filter_state where
  "decoding_filter = level51_stream\<lparr>m_decoder := Some CH264SWDecoder\<rparr>"

definition full_sample :: media_sample where
  "full_sample =
     \<lparr>dwStreamId = AM_STREAM_MEDIA, GetPointer = S_OK, GetActualDataLength = 4096,
      GetSize = 4096, GetTime = (S_OK, 0, 400000)\<rparr>"

text \<open>The same payload in a buffer of 8192 bytes, with room for the padding.\<close>

definition roomy_sample :: media_sample where
  "roomy_sample = full_sample\<lparr>GetSize := 8192\<rparr>"


section \<open>Properties of the driver version comparison\<close>

lemma word_ffff_mask: "(0xffff :: 32 word) = mask 16"
  by (simp add: mask_eq_exp_minus_1)

lemma HIWORD_HighPart_pack: "HIWORD (HighPart (pack_version (a, b, c, d))) = a"
  unfolding HIWORD_def HighPart_def pack_version_def word_ffff_mask
  by (rule bit_word_eqI) (auto simp: bit_simps dest: bit_imp_le_length)

lemma LOWORD_HighPart_pack: "LOWORD (HighPart (pack_version (a, b, c, d))) = b"
  unfolding LOWORD_def HighPart_def pack_version_def word_ffff_mask
  by (rule bit_word_eqI) (auto simp: bit_simps dest: bit_imp_le_length)

lemma HIWORD_LowPart_pack: "HIWORD (LowPart (pack_version (a, b, c, d))) = c"
  unfolding HIWORD_def LowPart_def pack_version_def word_ffff_mask
  by (rule bit_word_eqI) (auto simp: bit_simps dest: bit_imp_le_length)

lemma LOWORD_LowPart_pack: "LOWORD (LowPart (pack_version (a, b, c, d))) = d"
  unfolding LOWORD_def LowPart_def pack_version_def word_ffff_mask
  by (rule bit_word_eqI) (auto simp: bit_simps dest: bit_imp_le_length)

lemma version_tuple_pack:
  "version_tuple (pack_version (a, b, c, d)) = (uint a, uint b, uint c, uint d)"
  by (simp add: version_tuple_def HIWORD_HighPart_pack LOWORD_HighPart_pack
      HIWORD_LowPart_pack LOWORD_LowPart_pack)

lemma hasDriverVersionReached_iff_le:
  "hasDriverVersionReached version a b c d \<longleftrightarrow> (a, b, c, d) \<le> version_tuple version"
  unfolding hasDriverVersionReached_def version_tuple_def
  by (auto simp: less_eq_prod_def less_prod_def)

lemma reached_iff_le:
  "reached (a, b, c, d) (a', b', c', d') \<longleftrightarrow>
     (uint a', uint b', uint c', uint d') \<le> (uint a, uint b, uint c, uint d)"
  by (simp add: reached_def hasDriverVersionReached_iff_le version_tuple_pack)

text \<open>
  Claim C3. For every packed 64-bit version and every 4-tuple \<open>(a, b, c, d)\<close> (of 16-bit
  components, and in fact of any integers), \<open>hasDriverVersionReached\<close> holds exactly
  when \<open>(a, b, c, d)\<close> is at most the version's (major, minor, build, revision) tuple in
  the lexicographic order (the order of \<open>Product_Lexorder\<close> on the nested pairs), with
  equality included. Read as a relation between 16-bit 4-tuples, the comparison is
  reflexive, total, antisymmetric and transitive: a total order.
\<close>

theorem hasDriverVersionReached_lexicographic_total_order:
  fixes version :: "64 word" and a b c d :: int
    and s t u :: "16 word \<times> 16 word \<times> 16 word \<times> 16 word"
  shows "(hasDriverVersionReached version a b c d \<longleftrightarrow> (a, b, c, d) \<le> version_tuple version)
       \<and> reached s s
       \<and> (reached s t \<or> reached t s)
       \<and> (reached s t \<and> reached t s \<longrightarrow> s = t)
       \<and> (reached s t \<and> reached t u \<longrightarrow> reached s u)"
proof -
  obtain s1 s2 s3 s4 where s: "s = (s1, s2, s3, s4)" by (cases s)
  obtain t1 t2 t3 t4 where t: "t = (t1, t2, t3, t4)" by (cases t)
  obtain u1 u2 u3 u4 where u: "u = (u1, u2, u3, u4)" by (cases u)
  let ?S = "(uint s1, uint s2, uint s3, uint s4)"
  let ?T = "(uint t1, uint t2, uint t3, uint t4)"
  let ?U = "(uint u1, uint u2, uint u3, uint u4)"
  have refl: "reached s s"
    unfolding s reached_iff_le by simp
  have total: "reached s t \<or> reached t s"
    unfolding s t reached_iff_le by (rule linear)
  have antisym: "s = t" if "reached s t \<and> reached t s"
  proof -
    from that have "?T \<le> ?S" and "?S \<le> ?T"
      unfolding s t reached_iff_le by simp_all
    then have "?S = ?T" by (rule order.antisym [rotated])
    then show ?thesis by (simp add: s t word_uint_eq_iff)
  qed
  have trans: "reached s u" if "reached s t \<and> reached t u"
  proof -
    from that have "?T \<le> ?S" and "?U \<le> ?T"
      unfolding s t u reached_iff_le by simp_all
    then have "?U \<le> ?S" by (rule order.trans [rotated])
    then show ?thesis unfolding s u reached_iff_le .
  qed
  from refl total antisym trans hasDriverVersionReached_iff_le [of version a b c d]
  show ?thesis by blast
qed

theorem hasDriverVersionReached_lexicographic_total_order_witness:
  "reached (7, 15, 11, 7800) (7, 15, 11, 7800)
   \<and> reached (7, 15, 11, 7800) (7, 15, 11, 7799)
   \<and> reached (7, 15, 11, 7799) (6, 14, 11, 7800)
   \<and> reached (7, 15, 11, 7800) (6, 14, 11, 7800)
   \<and> hasDriverVersionReached 0x0007000F000B1E78 7 15 11 7800
   \<and> \<not> hasDriverVersionReached 0x0007000F000B1E78 7 15 11 7801"
proof -
  have h1: "reached (7, 15, 11, 7800) (7, 15, 11, 7799)"
    by (simp add: reached_iff_le less_eq_prod_def)
  have h2: "reached (7, 15, 11, 7799) (6, 14, 11, 7800)"
    by (simp add: reached_iff_le less_eq_prod_def)
  have v: "version_tuple 0x0007000F000B1E78 = (7, 15, 11, 7800)"
    by (simp add: version_tuple_def HIWORD_def LOWORD_def HighPart_def LowPart_def)
  from h1 h2
    hasDriverVersionReached_lexicographic_total_order
      [of "0x0007000F000B1E78" 7 15 11 7800 "(7, 15, 11, 7800)" "(7, 15, 11, 7799)"
          "(6, 14, 11, 7800)"]
    hasDriverVersionReached_lexicographic_total_order
      [of "0x0007000F000B1E78" 7 15 11 7801 "(7, 15, 11, 7800)" "(7, 15, 11, 7800)"
          "(7, 15, 11, 7800)"]
  show ?thesis
    by (simp add: v less_eq_prod_def)
qed

section \<open>Properties of the hardware compatibility check\<close>

lemma int32_in_range: "- 2147483648 \<le> x \<Longrightarrow> x \<le> 2147483647 \<Longrightarrow> int32 x = x"
  unfolding int32_def by (simp add: signed_take_bit_int_eq_self)

lemma sdiv_nonneg_pos: "0 < y \<Longrightarrow> 0 \<le> x \<Longrightarrow> x sdiv y = x div (y::int)"
  by (simp add: signed_divide_int_def sgn_if)

lemma maxRefFramesDPB41_in_range:
  assumes "0 < width" and "0 < height" and "width * height \<le> 2147483647"
  shows "maxRefFramesDPB41 width height = Inr (min 11 (8388608 div (width * height)))"
proof -
  have pos: "0 < width * height" using assms by simp
  then have "int32 (width * height) = width * height"
    using assms(3) by (intro int32_in_range) simp_all
  with pos show ?thesis
    using assms by (simp add: maxRefFramesDPB41_def sdiv_nonneg_pos)
qed

lemma min_div_antimono:
  "0 < (a::int) \<Longrightarrow> a \<le> b \<Longrightarrow> min 11 (8388608 div b) \<le> min (11::int) (8388608 div a)"
proof -
  assume "0 < a" and "a \<le> b"
  then have "(8388608::int) div b \<le> 8388608 div a"
    by (intro zdiv_mono2) simp_all
  then show ?thesis by simp
qed

lemma vendorOverride_fst: 
  "fst (vendorOverride k env width dpb41) = 0 \<or> fst (vendorOverride k env width dpb41) = 1"
  by (simp add: vendorOverride_def Let_def)

lemma compatibilityFlags_too_much:
  assumes "n = 0 \<or> n = 1"
  shows "has_flag (compatibilityFlags videoLevel n (if c then 1 else 0))
           DXVA_TOO_MUCH_REF_FRAMES = c"
  using assms
  by (auto simp: has_flag_def compatibilityFlags_def DXVA_TOO_MUCH_REF_FRAMES_def
      DXVA_UNSUPPORTED_LEVEL_def)

lemma checkHWCompatibilityForH264_flag:
  assumes "maxRefFramesDPB41 width height = Inr dpb41" and "0 \<le> videoLevel"
  shows "\<exists>flags. checkHWCompatibilityForH264 k env width height videoLevel refFrameCount
                    = Inr flags \<and>
           (has_flag flags DXVA_TOO_MUCH_REF_FRAMES \<longleftrightarrow>
              refFrameCount > snd (vendorOverride k env width dpb41))"
proof -
  obtain n m where vo: "vendorOverride k env width dpb41 = (n, m)"
    by (cases "vendorOverride k env width dpb41")
  with vendorOverride_fst [of k env width dpb41] have n: "n = 0 \<or> n = 1" by simp
  show ?thesis
    using assms vo compatibilityFlags_too_much [OF n, of videoLevel "refFrameCount > m"]
    by (simp add: checkHWCompatibilityForH264_def)
qed

text \<open>
  Claim C2, as amended. For every \<open>width > 0\<close> and \<open>height > 0\<close> whose product fits the
  32-bit \<open>int\<close> (\<open>width * height \<le> 2147483647\<close>) and every \<open>videoLevel \<ge> 0\<close>:
  the limit before the vendor override is \<open>min(11, 8388608 / (width * height))\<close> with
  integer division; it does not increase when the product grows (within that range);
  and the result has the flag \<open>DXVA_TOO_MUCH_REF_FRAMES\<close> exactly when
  \<open>refFrameCount\<close> exceeds the limit after the vendor override.
\<close>

theorem checkHWCompatibilityForH264_maxRefFrames:
  assumes "0 < width" and "0 < height" and "width * height \<le> 2147483647"
    and "0 \<le> videoLevel"
  shows "maxRefFramesDPB41 width height = Inr (min 11 (8388608 div (width * height)))
       \<and> (\<forall>width' height'.
            0 < width' \<and> 0 < height' \<and> width * height \<le> width' * height' \<and>
            width' * height' \<le> 2147483647 \<longrightarrow>
            (\<exists>m m'. maxRefFramesDPB41 width height = Inr m \<and>
                    maxRefFramesDPB41 width' height' = Inr m' \<and> m' \<le> m))
       \<and> (\<exists>flags. checkHWCompatibilityForH264 k env width height videoLevel refFrameCount
                     = Inr flags \<and>
            (has_flag flags DXVA_TOO_MUCH_REF_FRAMES \<longleftrightarrow>
               refFrameCount >
                 snd (vendorOverride k env width (min 11 (8388608 div (width * height))))))"
proof -
  have dpb: "maxRefFramesDPB41 width height = Inr (min 11 (8388608 div (width * height)))"
    using assms(1-3) by (rule maxRefFramesDPB41_in_range)
  have pos: "0 < width * height" using assms(1,2) by simp
  have mono: "\<exists>m m'. maxRefFramesDPB41 width height = Inr m \<and>
                      maxRefFramesDPB41 width' height' = Inr m' \<and> m' \<le> m"
    if "0 < width' \<and> 0 < height' \<and> width * height \<le> width' * height' \<and>
        width' * height' \<le> 2147483647" for width' height'
  proof -
    from that have "maxRefFramesDPB41 width' height' =
        Inr (min 11 (8388608 div (width' * height')))"
      by (intro maxRefFramesDPB41_in_range) simp_all
    moreover from that pos
    have "min 11 (8388608 div (width' * height')) \<le> min 11 (8388608 div (width * height))"
      by (intro min_div_antimono) simp_all
    ultimately show ?thesis using dpb by simp
  qed
  from dpb mono checkHWCompatibilityForH264_flag [OF dpb assms(4)]
  show ?thesis by blast
qed

theorem checkHWCompatibilityForH264_maxRefFrames_witness:
  "maxRefFramesDPB41 1280 720 = Inr 9
   \<and> maxRefFramesDPB41 1920 1080 = Inr 4
   \<and> checkHWCompatibilityForH264 pci_constants intel_win7 1280 720 41 8 = Inr 0
   \<and> \<not> has_flag 0 DXVA_TOO_MUCH_REF_FRAMES
   \<and> checkHWCompatibilityForH264 pci_constants intel_win7 1280 720 41 10
       = Inr DXVA_TOO_MUCH_REF_FRAMES"
proof -
  have h: "(0::int) < 1280" "(0::int) < 720" "(1280::int) * 720 \<le> 2147483647" "(0::int) \<le> 41"
    by simp_all
  have vo: "vendorOverride pci_constants intel_win7 1280 9 = (1, 9)"
    by (simp add: vendorOverride_def pci_constants_def intel_win7_def)
  have c8: "checkHWCompatibilityForH264 pci_constants intel_win7 1280 720 41 8 = Inr 0"
    using checkHWCompatibilityForH264_maxRefFrames
            [OF h, of pci_constants intel_win7 8]
    by (simp add: checkHWCompatibilityForH264_def vo compatibilityFlags_def)
  have c10: "checkHWCompatibilityForH264 pci_constants intel_win7 1280 720 41 10
               = Inr DXVA_TOO_MUCH_REF_FRAMES"
    using checkHWCompatibilityForH264_maxRefFrames
            [OF h, of pci_constants intel_win7 10]
    by (simp add: checkHWCompatibilityForH264_def vo compatibilityFlags_def
        DXVA_TOO_MUCH_REF_FRAMES_def)
  have m: "maxRefFramesDPB41 1920 1080 = Inr 4"
    using checkHWCompatibilityForH264_maxRefFrames
            [OF h, of pci_constants intel_win7 8]
    by (simp add: maxRefFramesDPB41_in_range)
  from c8 c10 m checkHWCompatibilityForH264_maxRefFrames [OF h, of pci_constants intel_win7 8]
  show ?thesis
    by (simp add: has_flag_def)
qed

text \<open>
  The claim as stated, for every positive width and height, fails where the product
  leaves the 32-bit range: at 65536 x 65536 the wrapped product is 0 and the division
  traps, so no limit is computed and no flags are returned, while
  \<open>min(11, 8388608 / (65536 * 65536))\<close> is 0.
\<close>

theorem checkHWCompatibilityForH264_maxRefFrames_counterexample:
  "(0::int) < 65536 \<and> (0::int) \<le> 0
   \<and> maxRefFramesDPB41 65536 65536 = Inl DivideByZero
   \<and> maxRefFramesDPB41 65536 65536 \<noteq> Inr (min 11 (8388608 div (65536 * 65536)))
   \<and> checkHWCompatibilityForH264 pci_constants intel_win7 65536 65536 0 0 = Inl DivideByZero"
  by (simp add: maxRefFramesDPB41_def checkHWCompatibilityForH264_def int32_def)

section \<open>Properties of the legacy hardware activation\<close>

lemma checkHWCompatibilityForH264_level51_stream:
  "checkHWCompatibilityForH264 pci_constants intel_win7 1920 1080 51 16 = Inr 3"
proof -
  have dpb: "maxRefFramesDPB41 1920 1080 = Inr 4"
    by (simp add: maxRefFramesDPB41_in_range)
  have vo: "vendorOverride pci_constants intel_win7 1920 4 = (1, 4)"
    by (simp add: vendorOverride_def pci_constants_def intel_win7_def)
  show ?thesis
    by (simp add: checkHWCompatibilityForH264_def dpb vo compatibilityFlags_def
        DXVA_TOO_MUCH_REF_FRAMES_def DXVA_UNSUPPORTED_LEVEL_def)
qed

text \<open>
  Claim C1 at a failing input. For the level 5.1 stream with 16 reference frames the
  classification is 3: both \<open>DXVA_UNSUPPORTED_LEVEL\<close> and \<open>DXVA_TOO_MUCH_REF_FRAMES\<close>
  are set. \<open>ActivateDXVA1\<close> compares the classification with
  \<open>DXVA_UNSUPPORTED_LEVEL\<close> for equality, so it does not fail: it returns \<open>S_OK\<close> and
  has created the legacy hardware decoder.
\<close>

theorem ActivateDXVA1_level_unsupported_with_too_many_ref_frames:
  "checkHWCompatibilityForH264 pci_constants intel_win7 1920 1080 51 16 = Inr 3
   \<and> has_flag 3 DXVA_UNSUPPORTED_LEVEL
   \<and> has_flag 3 DXVA_TOO_MUCH_REF_FRAMES
   \<and> ActivateDXVA1 pci_constants intel_win7 decoder_identity level51_stream (Some 1) (Some 7) 22
       = Inr (S_OK, level51_stream\<lparr>m_decoder := Some (CH264DXVA1Decoder 7 22)\<rparr>)
   \<and> \<not> FAILED S_OK"
  by (simp add: checkHWCompatibilityForH264_level51_stream ActivateDXVA1_def
      level51_stream_def has_flag_def DXVA_UNSUPPORTED_LEVEL_def DXVA_TOO_MUCH_REF_FRAMES_def
      FAILED_def S_OK_def)

text \<open>
  With \<open>DXVA_UNSUPPORTED_LEVEL\<close> alone the activation is refused and no decoder is left.
\<close>

lemma ActivateDXVA1_level_unsupported_alone:
  assumes "m_preDecode this = Some pd" and "m_decoder this = None"
    and "checkHWCompatibilityForH264 k env (GetWidth pd) (GetHeight pd) (GetVideoLevel pd)
           (GetRefFrameCount pd) = Inr DXVA_UNSUPPORTED_LEVEL"
  shows "ActivateDXVA1 k env GetDecoderID this (Some accel) (Some decoderID) surfaceCount
           = Inr (E_FAIL, this\<lparr>m_decoder := None\<rparr>)"
  using assms by (simp add: ActivateDXVA1_def)

text \<open>
  Any other classification, including one that carries \<open>DXVA_UNSUPPORTED_LEVEL\<close> together
  with another flag, lets the activation through.
\<close>

lemma ActivateDXVA1_other_classification:
  assumes "m_preDecode this = Some pd" and "m_decoder this = None"
    and "checkHWCompatibilityForH264 k env (GetWidth pd) (GetHeight pd) (GetVideoLevel pd)
           (GetRefFrameCount pd) = Inr campatible"
    and "campatible \<noteq> DXVA_UNSUPPORTED_LEVEL"
  shows "ActivateDXVA1 k env GetDecoderID this (Some accel) (Some decoderID) surfaceCount
           = Inr (S_OK, this\<lparr>m_decoder := Some (CH264DXVA1Decoder decoderID surfaceCount)\<rparr>)"
  using assms by (auto simp: ActivateDXVA1_def)


section \<open>Properties of the hardware sample\<close>

lemma FAILED_codes:
  "\<not> FAILED S_OK" "\<not> FAILED S_FALSE" "FAILED E_NOTIMPL" "FAILED E_NOINTERFACE"
  "FAILED E_POINTER" "FAILED E_FAIL" "FAILED E_UNEXPECTED" "FAILED VFW_E_NOT_CONNECTED"
  "FAILED MF_E_UNSUPPORTED_SERVICE"
  by (simp_all add: FAILED_def word_sless_alt S_OK_def S_FALSE_def E_NOTIMPL_def
      E_NOINTERFACE_def E_POINTER_def E_FAIL_def E_UNEXPECTED_def VFW_E_NOT_CONNECTED_def
      MF_E_UNSUPPORTED_SERVICE_def)

lemma SUCCEEDED_iff: "SUCCEEDED hr \<longleftrightarrow> \<not> FAILED hr"
  by (auto simp: SUCCEEDED_def FAILED_def word_sle_eq word_sless_alt)

lemma GetService_other_service:
  "service \<noteq> MR_BUFFER_SERVICE \<Longrightarrow>
     GetService QueryInterface this service ID = Inr MF_E_UNSUPPORTED_SERVICE"
  by (simp add: GetService_def)

lemma GetService_bound_surface:
  "GetService QueryInterface (setSurface this surfaceID (Some surf)) MR_BUFFER_SERVICE ID
     = Inr E_NOINTERFACE"
  by (simp add: GetService_def setSurface_def)

lemma GetService_no_surface:
  "m_surface this = None \<Longrightarrow>
     GetService QueryInterface this MR_BUFFER_SERVICE ID = Inl NullDereference"
  by (simp add: GetService_def)

text \<open>
  Claim C5 at a failing input. A sample to which \<open>setSurface\<close> has bound surface 42 is
  asked for \<open>MR_BUFFER_SERVICE\<close>, and the surface's own \<open>QueryInterface\<close> would answer
  \<open>S_OK\<close>. \<open>GetService\<close> does not delegate: its test of \<open>m_surface\<close> is the wrong way
  round, and it returns the failure \<open>E_NOINTERFACE\<close>. For another service it returns
  \<open>MF_E_UNSUPPORTED_SERVICE\<close>, as the claim says.
\<close>

theorem GetService_bound_surface_not_delegated:
  "GetService (\<lambda>surf ID. S_OK) (setSurface new_sample 3 (Some 42)) MR_BUFFER_SERVICE
     IID_IDirect3DSurface9 = Inr E_NOINTERFACE
   \<and> FAILED E_NOINTERFACE
   \<and> GetService (\<lambda>surf ID. S_OK) (setSurface new_sample 3 (Some 42)) IID_IDirect3DSurface9
       IID_IDirect3DSurface9 = Inr MF_E_UNSUPPORTED_SERVICE"
  by (simp add: GetService_def setSurface_def FAILED_codes MR_BUFFER_SERVICE_def
      IID_IDirect3DSurface9_def)

section \<open>Properties of the allocator\<close>

lemma Alloc_loop_exit:
  "\<not> 0 \<le> m_lAllocated this \<Longrightarrow> Alloc_loop construct m_surfaces r this = (r, this)"
  by (subst Alloc_loop.simps) (simp del: Alloc_loop.simps)

lemma Alloc_loop_construct_fails:
  "0 \<le> m_lAllocated this \<Longrightarrow> FAILED (construct (m_lAllocated this) r) \<Longrightarrow>
     Alloc_loop construct m_surfaces r this =
       (construct (m_lAllocated this) r,
        this\<lparr>heap := heap this @ [next_address this],
             next_address := Suc (next_address this)\<rparr>)"
  by (subst Alloc_loop.simps) (simp add: Let_def del: Alloc_loop.simps)

lemma Alloc_loop_no_surface:
  "0 \<le> m_lAllocated this \<Longrightarrow> \<not> FAILED (construct (m_lAllocated this) r) \<Longrightarrow>
   GetSurface m_surfaces (m_lAllocated this) = None \<Longrightarrow>
     Alloc_loop construct m_surfaces r this =
       (E_UNEXPECTED,
        this\<lparr>heap := heap this @ [next_address this],
             next_address := Suc (next_address this)\<rparr>)"
  by (subst Alloc_loop.simps) (simp add: Let_def del: Alloc_loop.simps)

lemma Alloc_loop_step:
  "0 \<le> m_lAllocated this \<Longrightarrow> \<not> FAILED (construct (m_lAllocated this) r) \<Longrightarrow>
   GetSurface m_surfaces (m_lAllocated this) = Some surf \<Longrightarrow>
     Alloc_loop construct m_surfaces r this =
       Alloc_loop construct m_surfaces (construct (m_lAllocated this) r)
         (this\<lparr>heap := heap this @ [next_address this],
               next_address := Suc (next_address this),
               m_lFree := \<lparr>address = next_address this, m_surface = Some surf,
                           m_surfaceID = m_lAllocated this\<rparr> # m_lFree this,
               m_lAllocated := m_lAllocated this - 1\<rparr>)"
  by (subst Alloc_loop.simps) (simp add: Let_def setSurface_def del: Alloc_loop.simps)

lemma Alloc_loop_result:
  "Alloc_loop construct m_surfaces r this = (r', this') \<Longrightarrow> \<not> FAILED r' \<Longrightarrow>
   - 1 \<le> m_lAllocated this \<Longrightarrow>
     m_lAllocated this' = - 1 \<and>
     m_lFree this' =
       map (\<lambda>i. \<lparr>address = next_address this + nat (m_lAllocated this - i),
                  m_surface = GetSurface m_surfaces i, m_surfaceID = i\<rparr>)
           [0..m_lAllocated this] @ m_lFree this \<and>
     (\<forall>i \<in> {0..m_lAllocated this}. GetSurface m_surfaces i \<noteq> None) \<and>
     heap this' =
       heap this @ map (\<lambda>j. next_address this + j) [0..<nat (m_lAllocated this + 1)] \<and>
     next_address this' = next_address this + nat (m_lAllocated this + 1) \<and>
     m_lCount this' = m_lCount this \<and> m_bChanged this' = m_bChanged this \<and>
     flushes this' = flushes this"
proof (induction "nat (m_lAllocated this + 1)" arbitrary: r this)
  case 0
  then have "m_lAllocated this = - 1" by simp
  with 0 show ?case by (simp add: Alloc_loop_exit)
next
  case (Suc k)
  let ?n = "m_lAllocated this"
  let ?a = "next_address this"
  let ?r1 = "construct ?n r"
  from Suc(2) have True: "0 \<le> ?n" by simp
  from Suc(3,4) True have nf: "\<not> FAILED ?r1"
    using Alloc_loop_construct_fails [of this construct r m_surfaces] by auto
  from Suc(3,4) True nf obtain surf where surf: "GetSurface m_surfaces ?n = Some surf"
    using Alloc_loop_no_surface [of this construct r m_surfaces]
    by (cases "GetSurface m_surfaces ?n") (auto simp: FAILED_codes)
  define this2 where "this2 = this\<lparr>heap := heap this @ [?a], next_address := Suc ?a,
      m_lFree := \<lparr>address = ?a, m_surface = Some surf, m_surfaceID = ?n\<rparr> # m_lFree this,
      m_lAllocated := ?n - 1\<rparr>"
  from Suc(3) Alloc_loop_step [of this construct r m_surfaces surf, OF True nf surf]
  have run: "Alloc_loop construct m_surfaces ?r1 this2 = (r', this')"
    by (simp add: this2_def)
  have k: "k = nat (m_lAllocated this2 + 1)"
    using Suc(2) by (simp add: this2_def)
  have lo: "- 1 \<le> m_lAllocated this2"
    using True by (simp add: this2_def)
  note IH = Suc(1) [OF k run Suc(4) lo]
  have fields: "m_lAllocated this2 = ?n - 1" "next_address this2 = Suc ?a"
    "heap this2 = heap this @ [?a]"
    "m_lFree this2 =
       \<lparr>address = ?a, m_surface = Some surf, m_surfaceID = ?n\<rparr> # m_lFree this"
    "m_lCount this2 = m_lCount this" "m_bChanged this2 = m_bChanged this"
    "flushes this2 = flushes this"
    by (simp_all add: this2_def)
  let ?f = "\<lambda>i. \<lparr>address = ?a + nat (?n - i), m_surface = GetSurface m_surfaces i,
                  m_surfaceID = i\<rparr>"
  let ?f2 = "\<lambda>i. \<lparr>address = Suc ?a + nat (?n - 1 - i), m_surface = GetSurface m_surfaces i,
                   m_surfaceID = i\<rparr>"
  let ?sample = "\<lparr>address = ?a, m_surface = Some surf, m_surfaceID = ?n\<rparr>"
  have up: "[0..?n - 1] @ [?n] = [0..?n]"
    using True by (simp add: upto_rec2)
  have mapeq: "map ?f2 [0..?n - 1] = map ?f [0..?n - 1]"
    by (rule map_cong) (auto simp: nat_diff_distrib)
  have c1: "m_lAllocated this' = - 1"
    using IH by simp
  have c2: "m_lFree this' = map ?f [0..?n] @ m_lFree this"
  proof -
    have "m_lFree this' = map ?f2 [0..?n - 1] @ ?sample # m_lFree this"
      using IH by (simp add: fields)
    also have "\<dots> = map ?f [0..?n - 1] @ ?sample # m_lFree this"
      by (simp only: mapeq)
    also have "\<dots> = map ?f ([0..?n - 1] @ [?n]) @ m_lFree this"
      using surf by simp
    finally show ?thesis by (simp only: up)
  qed
  have c3: "\<forall>i \<in> {0..?n}. GetSurface m_surfaces i \<noteq> None"
  proof
    fix i assume "i \<in> {0..?n}"
    then have "i \<in> {0..?n - 1} \<or> i = ?n" by auto
    with IH surf fields show "GetSurface m_surfaces i \<noteq> None" by auto
  qed
  have nat_n: "nat (?n + 1) = Suc (nat ?n)" using True by simp
  have c4: "heap this' = heap this @ map (\<lambda>j. ?a + j) [0..<nat (?n + 1)]"
  proof -
    have "heap this' = (heap this @ [?a]) @ map (\<lambda>j. Suc ?a + j) [0..<nat ?n]"
      using IH by (simp add: fields)
    also have "map (\<lambda>j. Suc ?a + j) [0..<nat ?n] = map (\<lambda>j. ?a + j) (map Suc [0..<nat ?n])"
      by simp
    also have "map Suc [0..<nat ?n] = [Suc 0..<Suc (nat ?n)]"
      by (rule map_Suc_upt)
    also have "(heap this @ [?a]) @ map (\<lambda>j. ?a + j) [Suc 0..<Suc (nat ?n)]
                 = heap this @ map (\<lambda>j. ?a + j) (0 # [Suc 0..<Suc (nat ?n)])"
      by simp
    also have "0 # [Suc 0..<Suc (nat ?n)] = [0..<nat (?n + 1)]"
      unfolding nat_n by (rule upt_conv_Cons [symmetric]) simp
    finally show ?thesis .
  qed
  have c5: "next_address this' = ?a + nat (?n + 1)"
    using IH True by (simp add: fields)
  have c6: "m_lCount this' = m_lCount this \<and> m_bChanged this' = m_bChanged this \<and>
            flushes this' = flushes this"
    using IH by (simp add: fields)
  from c1 c2 c3 c4 c5 c6 show ?case by blast
qed


text \<open>
  A successful \<open>Alloc\<close> with a count of \<open>m_lCount\<close> leaves a free list of
  \<open>m_lCount\<close> samples. From the head on it holds the slots \<open>0\<close> to
  \<open>m_lCount - 1\<close>, each sample bound to the surface \<open>GetSurface\<close> answers for its own
  slot; read backwards, which is the order of the addresses and so of construction, the
  slots are \<open>m_lCount - 1\<close> down to \<open>0\<close>.
\<close>

lemma Alloc_success_pool:
  assumes run: "Alloc base_Alloc construct m_surfaces this = (r, this')"
    and ok: "\<not> FAILED r" and count: "0 \<le> m_lCount this"
  shows "m_lFree this' =
           map (\<lambda>i. \<lparr>address = next_address this + nat (m_lCount this - 1 - i),
                      m_surface = GetSurface m_surfaces i, m_surfaceID = i\<rparr>)
               [0..m_lCount this - 1]"
    and "\<forall>i \<in> {0..m_lCount this - 1}. GetSurface m_surfaces i \<noteq> None"
    and "map address (rev (m_lFree this')) =
           [next_address this..<next_address this + nat (m_lCount this)]"
    and "map m_surfaceID (rev (m_lFree this')) = rev [0..m_lCount this - 1]"
    and "length (m_lFree this') = nat (m_lCount this)"
proof -
  let ?this1 = "(Free this)\<lparr>m_lAllocated := m_lCount (Free this) - 1\<rparr>"
  obtain r2 this2 where loop: "Alloc_loop construct m_surfaces base_Alloc ?this1 = (r2, this2)"
    by (cases "Alloc_loop construct m_surfaces base_Alloc ?this1")
  from run ok have base: "\<not> FAILED base_Alloc"
    by (auto simp: Alloc_def)
  with run ok loop have r2: "\<not> FAILED r2" and this': "this' = this2\<lparr>m_bChanged := False\<rparr>"
    by (auto simp: Alloc_def Let_def split: if_splits)
  have lo: "- 1 \<le> m_lAllocated ?this1"
    using count by (simp add: Free_def)
  note res = Alloc_loop_result [OF loop r2 lo]
  let ?f = "\<lambda>i. \<lparr>address = next_address this + nat (m_lCount this - 1 - i),
                  m_surface = GetSurface m_surfaces i, m_surfaceID = i\<rparr>"
  show pool: "m_lFree this' = map ?f [0..m_lCount this - 1]"
    using res by (simp add: this' Free_def)
  show "\<forall>i \<in> {0..m_lCount this - 1}. GetSurface m_surfaces i \<noteq> None"
    using res by (simp add: Free_def)
  have ids: "map m_surfaceID (m_lFree this') = [0..m_lCount this - 1]"
    unfolding pool by (simp add: comp_def)
  show "map m_surfaceID (rev (m_lFree this')) = rev [0..m_lCount this - 1]"
    unfolding rev_map [symmetric] ids ..
  show len: "length (m_lFree this') = nat (m_lCount this)"
    unfolding pool using count by simp
  show "map address (rev (m_lFree this')) =
           [next_address this..<next_address this + nat (m_lCount this)]"
  proof (rule nth_equalityI)
    show "length (map address (rev (m_lFree this'))) =
          length [next_address this..<next_address this + nat (m_lCount this)]"
      using len by simp
  next
    fix j assume "j < length (map address (rev (m_lFree this')))"
    then have j: "j < nat (m_lCount this)" using len by simp
    then have idx: "nat (m_lCount this) - Suc j < length [0..m_lCount this - 1]"
      using count by simp
    have "map address (rev (m_lFree this')) ! j =
            address (m_lFree this' ! (nat (m_lCount this) - Suc j))"
      using j len by (simp add: rev_nth)
    also have "\<dots> = address (?f ([0..m_lCount this - 1] ! (nat (m_lCount this) - Suc j)))"
      unfolding pool using idx by (simp del: length_upto)
    also have "[0..m_lCount this - 1] ! (nat (m_lCount this) - Suc j) =
                 int (nat (m_lCount this) - Suc j)"
      using j count by (simp add: nth_upto)
    also have "address (?f (int (nat (m_lCount this) - Suc j))) = next_address this + j"
      using j count by (simp add: nat_diff_distrib)
    also have "\<dots> = [next_address this..<next_address this + nat (m_lCount this)] ! j"
      using j by simp
    finally show "map address (rev (m_lFree this')) ! j =
                  [next_address this..<next_address this + nat (m_lCount this)] ! j" .
  qed
qed

lemma Alloc_no_surfaces:
  "Alloc S_OK (\<lambda>i r. r) [] fresh_allocator =
     (E_UNEXPECTED, fresh_allocator\<lparr>heap := [0], next_address := 1, flushes := 2\<rparr>)"
  by (simp add: Alloc_def Free_def fresh_allocator_def GetSurface_def FAILED_def S_OK_def
      E_UNEXPECTED_def word_sless_alt)

lemma Alloc_second_surface_missing:
  "Alloc S_OK (\<lambda>i r. r) [None, Some 7] fresh_allocator =
     (E_UNEXPECTED, fresh_allocator\<lparr>heap := [1], next_address := 2, flushes := 2\<rparr>)"
  by (simp add: Alloc_def Free_def fresh_allocator_def GetSurface_def setSurface_def
      FAILED_def S_OK_def E_UNEXPECTED_def word_sless_alt)

text \<open>
  Claim C9 at a failing input. With two samples to allocate and a surface at index 1 only,
  the first sample (address 0) is created, bound and put on the free list; the second
  (address 1) is created, and the lookup of surface 0 fails. \<open>Alloc\<close> returns
  \<open>E_UNEXPECTED\<close> and no pool is kept, but \<open>Free\<close> deletes only the samples on the free
  list: the sample at address 1 is still on the heap. With no surface at all, which is how
  the filter source leaves \<open>m_surfaces\<close>, the very first sample is lost in the same way. (What
  the claim says of a successful \<open>Alloc\<close> holds: \<open>Alloc_success_pool\<close>.)
\<close>

theorem Alloc_failure_leaves_sample:
  "Alloc S_OK (\<lambda>i r. r) [None, Some 7] fresh_allocator =
     (E_UNEXPECTED, fresh_allocator\<lparr>heap := [1], next_address := 2, flushes := 2\<rparr>)
   \<and> m_lFree (snd (Alloc S_OK (\<lambda>i r. r) [None, Some 7] fresh_allocator)) = []
   \<and> heap (snd (Alloc S_OK (\<lambda>i r. r) [None, Some 7] fresh_allocator)) = [1]
   \<and> heap (snd (Alloc S_OK (\<lambda>i r. r) [] fresh_allocator)) = [0]"
  unfolding Alloc_no_surfaces Alloc_second_surface_missing
  by (simp add: fresh_allocator_def)


section \<open>Properties of the modern hardware negotiation\<close>

lemma find_configuration_eq:
  "find_configuration configs selectedConfig =
     (case find (\<lambda>config. ConfigBitstreamRaw config = 2) configs of
        Some config \<Rightarrow> (True, config)
      | None \<Rightarrow> (False, if configs = [] then selectedConfig else last configs))"
  by (induction configs arbitrary: selectedConfig) (auto split: option.splits)

lemma confirm_formats_NV12:
  assumes "MAKEFOURCC CHR ''N'' CHR ''V'' CHR ''1'' CHR ''2'' \<in> set formats"
    and "GetDecoderConfigurations svc decoderID (nv12_desc pd) = (r, configs)"
    and "\<not> FAILED r"
  shows "confirm_formats svc (Some pd) decoderID formats (selectedConfig, selectedFormat) =
     (case find_configuration configs selectedConfig of
        (found, config) \<Rightarrow>
          Inr (if found \<or> configs \<noteq> [] then S_OK else E_FAIL, config, nv12_desc pd))"
  using assms
  by (induction formats) (auto simp: nv12_desc_def Let_def split: prod.splits bool.splits)

lemma confirm_formats_no_NV12:
  assumes "MAKEFOURCC CHR ''N'' CHR ''V'' CHR ''1'' CHR ''2'' \<notin> set formats"
  shows "confirm_formats svc preDecode decoderID formats (selectedConfig, selectedFormat) =
     Inr (E_FAIL, selectedConfig, selectedFormat)"
  using assms
  by (induction formats) (auto split: prod.splits)

lemma confirm_formats_query_fails:
  assumes "GetDecoderConfigurations svc decoderID (nv12_desc pd) = (r, configs)"
    and "FAILED r"
  shows "confirm_formats svc (Some pd) decoderID formats (selectedConfig, selectedFormat) =
     Inr (E_FAIL, selectedConfig, selectedFormat)"
  using assms
  by (induction formats) (auto simp: nv12_desc_def split: prod.splits)

text \<open>
  Claim C4, as amended. Let the decoder device offer an NV12 render target and let the
  configuration query for it succeed with the list \<open>configs\<close>. (Every NV12 target of
  the list leads to the same query, so the first NV12 target is the first one whose query
  succeeds.) If some configuration has \<open>ConfigBitstreamRaw = 2\<close>, the first such
  configuration is selected and \<open>S_OK\<close> returned. Otherwise, if the list is not empty,
  the last configuration of the list is selected and \<open>S_OK\<close> returned. An empty list
  yields \<open>E_FAIL\<close>. In all three cases the selected format is the NV12 description.
\<close>

theorem ConfirmDXVA2UncompFormat_selection:
  assumes "m_preDecode this = Some pd"
    and "GetDecoderRenderTargets svc decoderID = (r, formats)" and "\<not> FAILED r"
    and "MAKEFOURCC CHR ''N'' CHR ''V'' CHR ''1'' CHR ''2'' \<in> set formats"
    and "GetDecoderConfigurations svc decoderID (nv12_desc pd) = (r', configs)"
    and "\<not> FAILED r'"
  shows "ConfirmDXVA2UncompFormat svc this decoderID (selectedConfig, selectedFormat) =
     (case find (\<lambda>config. ConfigBitstreamRaw config = 2) configs of
        Some config \<Rightarrow> Inr (S_OK, config, nv12_desc pd)
      | None \<Rightarrow>
          if configs \<noteq> [] then Inr (S_OK, last configs, nv12_desc pd)
          else Inr (E_FAIL, selectedConfig, nv12_desc pd))"
  using assms(1-3) confirm_formats_NV12 [OF assms(4-6)]
  by (simp add: ConfirmDXVA2UncompFormat_def find_configuration_eq split: option.splits)

lemma nv12_services_query:
  "GetDecoderRenderTargets nv12_services DXVA2_ModeH264_E = (S_OK, [D3DFMT_NV12])"
  "GetDecoderConfigurations nv12_services DXVA2_ModeH264_E desc = (S_OK, two_configs)"
  by (simp_all add: nv12_services_def)

theorem ConfirmDXVA2UncompFormat_selection_witness:
  "ConfirmDXVA2UncompFormat nv12_services level51_stream DXVA2_ModeH264_E unwritten =
     Inr (S_OK, \<lparr>ConfigBitstreamRaw = 1, other_members = 2\<rparr>,
          nv12_desc \<lparr>GetWidth = 1920, GetHeight = 1080, GetVideoLevel = 51,
                     GetRefFrameCount = 16\<rparr>)"
proof -
  let ?pd = "\<lparr>GetWidth = 1920, GetHeight = 1080, GetVideoLevel = 51, GetRefFrameCount = 16\<rparr>"
  have h1: "m_preDecode level51_stream = Some ?pd"
    by (simp add: level51_stream_def)
  have h2: "GetDecoderRenderTargets nv12_services DXVA2_ModeH264_E = (S_OK, [D3DFMT_NV12])"
    by (rule nv12_services_query)
  have h3: "\<not> FAILED S_OK" by (rule FAILED_codes)
  have h4: "MAKEFOURCC CHR ''N'' CHR ''V'' CHR ''1'' CHR ''2'' \<in> set [D3DFMT_NV12]"
    by (simp add: D3DFMT_NV12_def)
  have h5: "GetDecoderConfigurations nv12_services DXVA2_ModeH264_E (nv12_desc ?pd)
              = (S_OK, two_configs)"
    by (rule nv12_services_query)
  show ?thesis
    using ConfirmDXVA2UncompFormat_selection [OF h1 h2 h3 h4 h5 h3, of "fst unwritten"
        "snd unwritten"]
    by (simp add: two_configs_def)
qed

text \<open>
  The claim as stated selects the first configuration when none has
  \<open>ConfigBitstreamRaw = 2\<close>. With the two configurations of \<open>two_configs\<close>, neither
  of which has it, the call returns \<open>S_OK\<close> with the second, not the first.
\<close>

theorem ConfirmDXVA2UncompFormat_selection_counterexample:
  "find (\<lambda>config. ConfigBitstreamRaw config = 2) two_configs = None
   \<and> two_configs \<noteq> []
   \<and> fst (snd (projr (ConfirmDXVA2UncompFormat nv12_services level51_stream
                        DXVA2_ModeH264_E unwritten))) = last two_configs
   \<and> fst (projr (ConfirmDXVA2UncompFormat nv12_services level51_stream
                   DXVA2_ModeH264_E unwritten)) = S_OK
   \<and> last two_configs \<noteq> hd two_configs"
  by (simp add: ConfirmDXVA2UncompFormat_def nv12_services_query FAILED_codes
      level51_stream_def unwritten_def D3DFMT_NV12_def two_configs_def)

lemma try_decoder_devices_none_usable:
  assumes "\<forall>devGUID \<in> set devGUIDs. IsFormatSupported devGUID \<longrightarrow>
             (\<exists>res. ConfirmDXVA2UncompFormat svc this devGUID selected = Inr res \<and>
                    FAILED (fst res))"
  shows "try_decoder_devices k env svc this selected devGUIDs = Inr (E_FAIL, this, [])"
  using assms
  by (induction devGUIDs) auto

lemma ActivateDXVA2_none_usable:
  assumes "GetDecoderDeviceGuids svc = (r, devGUIDs)"
    and "\<forall>devGUID \<in> set devGUIDs. IsFormatSupported devGUID \<longrightarrow>
             (\<exists>res. ConfirmDXVA2UncompFormat svc this devGUID selected = Inr res \<and>
                    FAILED (fst res))"
  shows "\<exists>r2. ActivateDXVA2 k env svc this selected = Inr (r2, this, []) \<and> FAILED r2"
  using assms(1) try_decoder_devices_none_usable [OF assms(2), of k env]
  by (auto simp: ActivateDXVA2_def FAILED_codes)

text \<open>
  Claim C8. Let the legacy hardware decoder not be activated (\<open>m_decoder\<close> is null) and
  let \<open>ActivateDXVA2\<close> find no usable candidate: of the decoder device identities the
  service enumerates, none passes \<open>IsFormatSupported\<close>, or for each that does the
  format and configuration negotiation fails. Then \<open>ActivateDXVA2\<close> fails without
  having requested any surface or decoder from the services, and \<open>CompleteConnect\<close> on
  the output pin installs \<open>CH264SWDecoder\<close>, whose construction cannot fail, and
  returns what the base filter returns.
\<close>

theorem CompleteConnect_software_fallback:
  assumes "m_decoder this = None"
    and "GetDecoderDeviceGuids svc = (r, devGUIDs)"
    and "\<forall>devGUID \<in> set devGUIDs. IsFormatSupported devGUID \<longrightarrow>
             (\<exists>res. ConfirmDXVA2UncompFormat svc this devGUID selected = Inr res \<and>
                    FAILED (fst res))"
  shows "(\<exists>r2. ActivateDXVA2 k env svc this selected = Inr (r2, this, []) \<and> FAILED r2)
       \<and> CompleteConnect k env svc Init CreateCodec base_CompleteConnect selected this
           PINDIR_OUTPUT
         = Inr (base_CompleteConnect, this\<lparr>m_decoder := Some CH264SWDecoder\<rparr>, [])"
proof -
  from ActivateDXVA2_none_usable [OF assms(2,3), of k env]
  obtain r2 where a: "ActivateDXVA2 k env svc this selected = Inr (r2, this, [])"
    and f: "FAILED r2" by blast
  from a f assms(1) show ?thesis
    by (simp add: CompleteConnect_def SUCCEEDED_iff)
qed

theorem CompleteConnect_software_fallback_witness:
  "CompleteConnect pci_constants intel_win7 no_target_services (\<lambda>dec. True) None S_OK
     unwritten level51_stream PINDIR_OUTPUT
     = Inr (S_OK, level51_stream\<lparr>m_decoder := Some CH264SWDecoder\<rparr>, [])
   \<and> CompleteConnect pci_constants intel_win7 unknown_device_services (\<lambda>dec. True) None S_OK
       unwritten level51_stream PINDIR_OUTPUT
     = Inr (S_OK, level51_stream\<lparr>m_decoder := Some CH264SWDecoder\<rparr>, [])"
proof -
  have d: "m_decoder level51_stream = None"
    by (simp add: level51_stream_def)
  have g1: "GetDecoderDeviceGuids no_target_services = (S_OK, [DXVA2_ModeH264_E])"
    by (simp add: no_target_services_def nv12_services_def)
  have c1: "\<forall>devGUID \<in> set [DXVA2_ModeH264_E]. IsFormatSupported devGUID \<longrightarrow>
             (\<exists>res. ConfirmDXVA2UncompFormat no_target_services level51_stream devGUID
                      unwritten = Inr res \<and> FAILED (fst res))"
    by (simp add: ConfirmDXVA2UncompFormat_def no_target_services_def nv12_services_def
        unwritten_def FAILED_codes)
  have g2: "GetDecoderDeviceGuids unknown_device_services = (S_OK, [1])"
    by (simp add: unknown_device_services_def nv12_services_def)
  have c2: "\<forall>devGUID \<in> set [1]. IsFormatSupported devGUID \<longrightarrow>
             (\<exists>res. ConfirmDXVA2UncompFormat unknown_device_services level51_stream devGUID
                      unwritten = Inr res \<and> FAILED (fst res))"
    by (simp add: IsFormatSupported_def supportedFormats_def DXVA2_ModeH264_E_def
        DXVA2_ModeH264_F_def MEDIASUBTYPE_NV12_def MEDIASUBTYPE_YV12_def
        MEDIASUBTYPE_YUY2_def)
  from CompleteConnect_software_fallback [OF d g1 c1, of pci_constants intel_win7
         "\<lambda>dec. True" None S_OK]
       CompleteConnect_software_fallback [OF d g2 c2, of pci_constants intel_win7
         "\<lambda>dec. True" None S_OK]
  show ?thesis by simp
qed


section \<open>Properties of the decode dispatch\<close>

lemma HRESULT_distinct:
  "S_FALSE \<noteq> S_OK" "E_NOTIMPL \<noteq> S_OK" "S_OK \<noteq> S_FALSE" "S_OK \<noteq> E_NOTIMPL"
  by (simp_all add: S_FALSE_def S_OK_def E_NOTIMPL_def)

lemma Receive_loop_done:
  "\<not> 0 <s dataRemaining \<Longrightarrow>
     Receive_loop c start stop r dataStart dataRemaining w tr = Some (r, w, tr)"
  by (subst Receive_loop.simps) simp

lemma dataRemaining_decreases:
  fixes dataRemaining usedBytes :: "32 word"
  assumes "0 <s dataRemaining" and "1 \<le>s usedBytes"
  shows "sint (dataRemaining - usedBytes) < sint dataRemaining"
proof -
  have d: "0 < sint dataRemaining" and u: "1 \<le> sint usedBytes"
    using assms by (simp_all add: word_sless_alt word_sle_eq)
  have "sint dataRemaining < 2 ^ 31" "sint usedBytes < 2 ^ 31"
    using sint_lt [of dataRemaining] sint_lt [of usedBytes] by simp_all
  with d u have "sint (dataRemaining - usedBytes) = sint dataRemaining - sint usedBytes"
    by (simp add: sint_word_ariths signed_take_bit_int_eq_self)
  with u show ?thesis by simp
qed

lemma Receive_loop_returns:
  fixes c :: "'w collaborators"
  assumes progress: "\<And>w dataStart dataRemaining r usedBytes w'.
      0 <s dataRemaining \<Longrightarrow>
      Decode c w dataStart dataRemaining start stop = ((r, usedBytes), w') \<Longrightarrow>
      \<not> FAILED r \<Longrightarrow> r \<noteq> S_FALSE \<Longrightarrow> 1 \<le>s usedBytes"
  shows "\<exists>res. Receive_loop c start stop r dataStart dataRemaining w tr = Some res"
proof (induction "nat (sint dataRemaining)" arbitrary: r dataStart dataRemaining w tr
       rule: less_induct)
  case less
  show ?case
  proof (cases "0 <s dataRemaining")
    case False
    then show ?thesis by (simp add: Receive_loop_done)
  next
    case True
    obtain r1 w1 where i: "InitializeOutputSample c w = (r1, w1)"
      by (cases "InitializeOutputSample c w")
    obtain r2 usedBytes w2 where
      d: "Decode c w1 dataStart dataRemaining start stop = ((r2, usedBytes), w2)"
      by (cases "Decode c w1 dataStart dataRemaining start stop") auto
    obtain r3 w3 where n: "DisplayNextFrame c w2 = (r3, w3)"
      by (cases "DisplayNextFrame c w2")
    obtain r4 w4 where v: "Deliver c w3 = (r4, w4)"
      by (cases "Deliver c w3")
    have next_call: "\<exists>res. Receive_loop c start stop r' dataStart'
                        (dataRemaining - usedBytes) w' tr' = Some res"
      if "\<not> FAILED r2" and "r2 \<noteq> S_FALSE" for r' dataStart' w' tr'
    proof -
      from progress [OF True d that] have "1 \<le>s usedBytes" .
      from dataRemaining_decreases [OF True this] True
      have "nat (sint (dataRemaining - usedBytes)) < nat (sint dataRemaining)"
        by (simp add: word_sless_alt)
      then show ?thesis by (rule less.hyps)
    qed
    show ?thesis
      apply (subst Receive_loop.simps)
      using True i d n v next_call
      apply auto
      done
  qed
qed

lemma Receive_loop_stuck:
  fixes c :: "'w collaborators"
  assumes init: "\<And>w. \<not> FAILED (fst (InitializeOutputSample c w))"
    and dec: "\<And>w dataStart dataRemaining. 0 <s dataRemaining \<Longrightarrow>
         (case Decode c w dataStart dataRemaining start stop of
            ((r, usedBytes), w') \<Rightarrow> r \<noteq> S_FALSE \<and> \<not> FAILED r \<and> usedBytes = 0)"
    and disp: "\<And>w. (case DisplayNextFrame c w of
            (r3, w3) \<Rightarrow> if E_NOTIMPL = r3 then \<not> FAILED (fst (Deliver c w3))
                         else \<not> FAILED r3)"
    and pos: "0 <s dataRemaining"
  shows "Receive_loop c start stop r dataStart dataRemaining w tr = None"
proof (cases "Receive_loop c start stop r dataStart dataRemaining w tr")
  case None
  then show ?thesis .
next
  case (Some y)
  define P where "P = (\<lambda>(c' :: 'w collaborators) (start' :: 64 word) (stop' :: 64 word)
      (r :: HRESULT) (dataStart :: int) (dataRemaining :: 32 word) (w :: 'w)
      (tr :: event list) (y :: HRESULT \<times> 'w \<times> event list).
      c' = c \<longrightarrow> start' = start \<longrightarrow> stop' = stop \<longrightarrow> 0 <s dataRemaining \<longrightarrow> False)"
  have "P c start stop r dataStart dataRemaining w tr y"
  proof (rule Receive_loop.raw_induct [where P = P, OF _ Some], goal_cases)
    case (1 loop c' start' stop' r dataStart dataRemaining w tr y)
    show ?case
      unfolding P_def
    proof (intro impI)
      assume eqs: "c' = c" "start' = start" "stop' = stop" and pos': "0 <s dataRemaining"
      obtain r1 w1 where i: "InitializeOutputSample c w = (r1, w1)"
        by (cases "InitializeOutputSample c w")
      obtain r2 usedBytes w2 where
        d: "Decode c w1 dataStart dataRemaining start stop = ((r2, usedBytes), w2)"
        by (cases "Decode c w1 dataStart dataRemaining start stop") auto
      obtain r3 w3 where n: "DisplayNextFrame c w2 = (r3, w3)"
        by (cases "DisplayNextFrame c w2")
      obtain r4 w4 where v: "Deliver c w3 = (r4, w4)"
        by (cases "Deliver c w3")
      from init [of w] i have i': "\<not> FAILED r1" by simp
      from dec [OF pos', of w1 dataStart] d
      have d': "S_FALSE \<noteq> r2" "\<not> FAILED r2" "usedBytes = 0" by auto
      from disp [of w2] n v
      have n': "if E_NOTIMPL = r3 then \<not> FAILED r4 else \<not> FAILED r3"
        by (auto split: if_splits)
      from 1(2) eqs pos' i i' d d' n v n'
      have "\<exists>r' w' tr'. loop c start stop r' dataStart dataRemaining w' tr' = Some y"
        by (auto split: if_splits)
      then obtain r' w' tr' where
        "loop c start stop r' dataStart dataRemaining w' tr' = Some y" by blast
      from 1(1) [OF this] pos' show False by (simp add: P_def)
    qed
  qed
  with pos show ?thesis by (simp add: P_def)
qed

lemma Receive_loop_no_progress:
  assumes "0 <s dataRemaining"
    and "InitializeOutputSample c w = (r1, w1)" and "\<not> FAILED r1"
    and "Decode c w1 dataStart dataRemaining start stop = ((r2, 0), w2)"
    and "r2 \<noteq> S_FALSE" and "\<not> FAILED r2"
    and "DisplayNextFrame c w2 = (r3, w3)"
    and "Deliver c w3 = (r4, w4)"
    and "if E_NOTIMPL = r3 then \<not> FAILED r4 else \<not> FAILED r3"
  shows "Receive_loop c start stop r dataStart dataRemaining w tr =
           (if E_NOTIMPL = r3
            then Receive_loop c start stop r4 dataStart dataRemaining w4
                   (tr @ [EvInitializeOutputSample, EvDecode dataStart dataRemaining,
                          EvDisplayNextFrame, EvDeliver])
            else Receive_loop c start stop r3 dataStart dataRemaining w3
                   (tr @ [EvInitializeOutputSample, EvDecode dataStart dataRemaining,
                          EvDisplayNextFrame]))"
  using assms
  by (subst Receive_loop.simps) (auto split: if_splits)

text \<open>
  Claim C10. The loop of \<open>Receive\<close> returns whenever every \<open>Decode\<close> call (made with
  bytes remaining) that returns a success other than \<open>S_FALSE\<close> reports
  \<open>usedBytes \<ge> 1\<close>: then \<open>dataRemaining\<close>, read as a signed value, is strictly smaller
  after each iteration. The precondition cannot be dropped. An iteration whose \<open>Decode\<close>
  succeeds with \<open>usedBytes = 0\<close>, and whose reorder or delivery step does not fail,
  leads back to the head of the loop with the same \<open>dataRemaining\<close>; and with a decoder
  whose calls all succeed with \<open>usedBytes = 0\<close>, an output allocator that does not fail
  and a reorder or delivery step that does not fail, the loop started with bytes
  remaining never returns.
\<close>

theorem Receive_loop_termination:
  fixes c c' :: "'w collaborators"
  shows
    "((\<forall>w dataStart dataRemaining r usedBytes w'.
         0 <s dataRemaining \<and>
         Decode c w dataStart dataRemaining start stop = ((r, usedBytes), w') \<and>
         \<not> FAILED r \<and> r \<noteq> S_FALSE \<longrightarrow> 1 \<le>s usedBytes)
      \<longrightarrow> (\<exists>res. Receive_loop c start stop r0 dataStart0 dataRemaining0 w0 tr0 = Some res))
   \<and> (\<forall>dataRemaining usedBytes :: 32 word.
         0 <s dataRemaining \<and> 1 \<le>s usedBytes \<longrightarrow>
         sint (dataRemaining - usedBytes) < sint dataRemaining)
   \<and> (0 <s dataRemaining0 \<and>
       InitializeOutputSample c' w0 = (r1, w1) \<and> \<not> FAILED r1 \<and>
       Decode c' w1 dataStart0 dataRemaining0 start stop = ((r2, 0), w2) \<and>
       r2 \<noteq> S_FALSE \<and> \<not> FAILED r2 \<and>
       DisplayNextFrame c' w2 = (r3, w3) \<and> Deliver c' w3 = (r4, w4) \<and>
       (if E_NOTIMPL = r3 then \<not> FAILED r4 else \<not> FAILED r3)
      \<longrightarrow> Receive_loop c' start stop r0 dataStart0 dataRemaining0 w0 tr0 =
           (if E_NOTIMPL = r3
            then Receive_loop c' start stop r4 dataStart0 dataRemaining0 w4
                   (tr0 @ [EvInitializeOutputSample, EvDecode dataStart0 dataRemaining0,
                           EvDisplayNextFrame, EvDeliver])
            else Receive_loop c' start stop r3 dataStart0 dataRemaining0 w3
                   (tr0 @ [EvInitializeOutputSample, EvDecode dataStart0 dataRemaining0,
                           EvDisplayNextFrame])))
   \<and> ((\<forall>w. \<not> FAILED (fst (InitializeOutputSample c' w))) \<and>
       (\<forall>w dataStart dataRemaining. 0 <s dataRemaining \<longrightarrow>
          (case Decode c' w dataStart dataRemaining start stop of
             ((r, usedBytes), w') \<Rightarrow> r \<noteq> S_FALSE \<and> \<not> FAILED r \<and> usedBytes = 0)) \<and>
       (\<forall>w. case DisplayNextFrame c' w of
               (r3, w3) \<Rightarrow> if E_NOTIMPL = r3 then \<not> FAILED (fst (Deliver c' w3))
                            else \<not> FAILED r3) \<and>
       0 <s dataRemaining0
      \<longrightarrow> Receive_loop c' start stop r0 dataStart0 dataRemaining0 w0 tr0 = None)"
proof -
  have returns: "\<exists>res. Receive_loop c start stop r0 dataStart0 dataRemaining0 w0 tr0 = Some res"
    if "\<forall>w dataStart dataRemaining r usedBytes w'.
         0 <s dataRemaining \<and>
         Decode c w dataStart dataRemaining start stop = ((r, usedBytes), w') \<and>
         \<not> FAILED r \<and> r \<noteq> S_FALSE \<longrightarrow> 1 \<le>s usedBytes"
    using that by (intro Receive_loop_returns) blast
  have decreases: "sint (dataRemaining - usedBytes) < sint dataRemaining"
    if "0 <s dataRemaining \<and> 1 \<le>s usedBytes" for dataRemaining usedBytes :: "32 word"
    using that by (simp add: dataRemaining_decreases)
  have repeats: "Receive_loop c' start stop r0 dataStart0 dataRemaining0 w0 tr0 =
           (if E_NOTIMPL = r3
            then Receive_loop c' start stop r4 dataStart0 dataRemaining0 w4
                   (tr0 @ [EvInitializeOutputSample, EvDecode dataStart0 dataRemaining0,
                           EvDisplayNextFrame, EvDeliver])
            else Receive_loop c' start stop r3 dataStart0 dataRemaining0 w3
                   (tr0 @ [EvInitializeOutputSample, EvDecode dataStart0 dataRemaining0,
                           EvDisplayNextFrame]))"
    if a: "0 <s dataRemaining0 \<and>
       InitializeOutputSample c' w0 = (r1, w1) \<and> \<not> FAILED r1 \<and>
       Decode c' w1 dataStart0 dataRemaining0 start stop = ((r2, 0), w2) \<and>
       r2 \<noteq> S_FALSE \<and> \<not> FAILED r2 \<and>
       DisplayNextFrame c' w2 = (r3, w3) \<and> Deliver c' w3 = (r4, w4) \<and>
       (if E_NOTIMPL = r3 then \<not> FAILED r4 else \<not> FAILED r3)"
  proof (rule Receive_loop_no_progress)
    show "0 <s dataRemaining0" using a by (elim conjE)
    show "InitializeOutputSample c' w0 = (r1, w1)" using a by (elim conjE)
    show "\<not> FAILED r1" using a by (elim conjE)
    show "Decode c' w1 dataStart0 dataRemaining0 start stop = ((r2, 0), w2)"
      using a by (elim conjE)
    show "r2 \<noteq> S_FALSE" using a by (elim conjE)
    show "\<not> FAILED r2" using a by (elim conjE)
    show "DisplayNextFrame c' w2 = (r3, w3)" using a by (elim conjE)
    show "Deliver c' w3 = (r4, w4)" using a by (elim conjE)
    show "if E_NOTIMPL = r3 then \<not> FAILED r4 else \<not> FAILED r3" using a by (elim conjE)
  qed
  have stuck: "Receive_loop c' start stop r0 dataStart0 dataRemaining0 w0 tr0 = None"
    if a: "(\<forall>w. \<not> FAILED (fst (InitializeOutputSample c' w))) \<and>
       (\<forall>w dataStart dataRemaining. 0 <s dataRemaining \<longrightarrow>
          (case Decode c' w dataStart dataRemaining start stop of
             ((r, usedBytes), w') \<Rightarrow> r \<noteq> S_FALSE \<and> \<not> FAILED r \<and> usedBytes = 0)) \<and>
       (\<forall>w. case DisplayNextFrame c' w of
               (r3, w3) \<Rightarrow> if E_NOTIMPL = r3 then \<not> FAILED (fst (Deliver c' w3))
                            else \<not> FAILED r3) \<and>
       0 <s dataRemaining0"
  proof (rule Receive_loop_stuck)
    note a1 = a [THEN conjunct1]
      and a2 = a [THEN conjunct2, THEN conjunct1]
      and a3 = a [THEN conjunct2, THEN conjunct2, THEN conjunct1]
      and a4 = a [THEN conjunct2, THEN conjunct2, THEN conjunct2]
    show "\<not> FAILED (fst (InitializeOutputSample c' w))" for w
      by (rule a1 [rule_format])
    show "case Decode c' w dataStart dataRemaining start stop of
            ((r, usedBytes), w') \<Rightarrow> r \<noteq> S_FALSE \<and> \<not> FAILED r \<and> usedBytes = 0"
      if "0 <s dataRemaining" for w dataStart dataRemaining
      by (rule a2 [rule_format, OF that])
    show "case DisplayNextFrame c' w of
               (r3, w3) \<Rightarrow> if E_NOTIMPL = r3 then \<not> FAILED (fst (Deliver c' w3))
                            else \<not> FAILED r3" for w
      by (rule a3 [rule_format])
    show "0 <s dataRemaining0" by (rule a4)
  qed
  from returns decreases repeats stuck show ?thesis by blast
qed

theorem Receive_loop_termination_witness:
  "(\<exists>res. Receive_loop bytewise_decoder 0 400000 S_OK 0 3 0 [] = Some res)
   \<and> Receive_loop stuck_decoder 0 400000 S_OK 0 3 0 [] =
       Receive_loop stuck_decoder 0 400000 S_OK 0 3 1
         [EvInitializeOutputSample, EvDecode 0 3, EvDisplayNextFrame, EvDeliver]
   \<and> Receive_loop stuck_decoder 0 400000 S_OK 0 3 0 [] = None"
proof -
  have p: "\<forall>w dataStart dataRemaining r usedBytes w'.
         0 <s dataRemaining \<and>
         Decode bytewise_decoder w dataStart dataRemaining 0 400000 = ((r, usedBytes), w') \<and>
         \<not> FAILED r \<and> r \<noteq> S_FALSE \<longrightarrow> 1 \<le>s usedBytes"
    by (auto simp: bytewise_decoder_def decoder_with_def)
  have n: "0 <s (3 :: 32 word) \<and>
       InitializeOutputSample stuck_decoder 0 = (S_OK, 0) \<and> \<not> FAILED S_OK \<and>
       Decode stuck_decoder 0 0 3 0 400000 = ((S_OK, 0), 0) \<and>
       S_OK \<noteq> S_FALSE \<and> \<not> FAILED S_OK \<and>
       DisplayNextFrame stuck_decoder 0 = (E_NOTIMPL, 0) \<and>
       Deliver stuck_decoder 0 = (S_OK, 1) \<and>
       (if E_NOTIMPL = E_NOTIMPL then \<not> FAILED S_OK else \<not> FAILED E_NOTIMPL)"
    by (simp add: stuck_decoder_def decoder_with_def FAILED_codes HRESULT_distinct
        word_sless_alt)
  have s: "(\<forall>w. \<not> FAILED (fst (InitializeOutputSample stuck_decoder w))) \<and>
       (\<forall>w dataStart dataRemaining. 0 <s dataRemaining \<longrightarrow>
          (case Decode stuck_decoder w dataStart dataRemaining 0 400000 of
             ((r, usedBytes), w') \<Rightarrow> r \<noteq> S_FALSE \<and> \<not> FAILED r \<and> usedBytes = 0)) \<and>
       (\<forall>w. case DisplayNextFrame stuck_decoder w of
               (r3, w3) \<Rightarrow> if E_NOTIMPL = r3 then \<not> FAILED (fst (Deliver stuck_decoder w3))
                            else \<not> FAILED r3) \<and>
       0 <s (3 :: 32 word)"
    by (simp add: stuck_decoder_def decoder_with_def FAILED_codes HRESULT_distinct
        word_sless_alt)
  note inst = Receive_loop_termination [where c = bytewise_decoder and c' = stuck_decoder
      and start = 0 and stop = 400000 and ?r0.0 = S_OK and ?dataStart0.0 = 0
      and ?dataRemaining0.0 = 3 and ?w0.0 = 0 and ?tr0.0 = "[]"
      and ?r1.0 = S_OK and ?w1.0 = 0 and ?r2.0 = S_OK and ?w2.0 = 0
      and ?r3.0 = E_NOTIMPL and ?w3.0 = 0 and ?r4.0 = S_OK and ?w4.0 = 1]
  note c1 = inst [THEN conjunct1, THEN mp, OF p]
  note c3 = inst [THEN conjunct2, THEN conjunct2, THEN conjunct1, THEN mp, OF n]
  note c4 = inst [THEN conjunct2, THEN conjunct2, THEN conjunct2, THEN mp, OF s]
  have "Receive_loop stuck_decoder 0 400000 S_OK 0 3 0 [] =
       Receive_loop stuck_decoder 0 400000 S_OK 0 3 1
         [EvInitializeOutputSample, EvDecode 0 3, EvDisplayNextFrame, EvDeliver]"
    using c3 by simp
  with c1 c4 show ?thesis by (intro conjI)
qed

lemma Receive_loop_need_more_input:
  assumes "0 <s dataRemaining"
    and "InitializeOutputSample c w = (r1, w1)" and "\<not> FAILED r1"
    and "Decode c w1 dataStart dataRemaining start stop = ((S_FALSE, usedBytes), w2)"
  shows "Receive_loop c start stop r dataStart dataRemaining w tr =
           Some (S_OK, w2, tr @ [EvInitializeOutputSample, EvDecode dataStart dataRemaining])"
  by (subst Receive_loop.simps) (simp add: assms)

text \<open>
  Claim C7. Take a media-stream sample that reaches the first decode step: a decoder is
  active, the sample's pointer and times are read without failure, its buffer has room
  for the padding (or the build has no assertions), it holds at least one byte, and an
  output sample is obtained. If that first \<open>Decode\<close> returns \<open>S_FALSE\<close>, then
  \<open>Receive\<close> returns \<open>S_OK\<close>, and among its calls there is no \<open>DisplayNextFrame\<close> and no
  delivery downstream.
\<close>

theorem Receive_need_more_input:
  assumes "dwStreamId inSample = AM_STREAM_MEDIA"
    and "m_decoder this \<noteq> None" and "m_preDecode this \<noteq> None"
    and "\<not> FAILED (GetPointer inSample)"
    and "NDEBUG \<or> \<not> GetSize inSample <s GetActualDataLength inSample + padding"
    and "GetTime inSample = (r, start, stop0)" and "\<not> FAILED r"
    and "0 <s GetActualDataLength inSample"
    and "InitializeOutputSample c w = (r1, w1)" and "\<not> FAILED r1"
    and "Decode c w1 0 (GetActualDataLength inSample) start (adjusted_stop this start stop0)
           = ((S_FALSE, usedBytes), w2)"
  shows "\<exists>tr. Receive NDEBUG padding c this inSample w = Some (Inr (S_OK, w2, tr))
              \<and> EvDisplayNextFrame \<notin> set tr \<and> EvDeliver \<notin> set tr
              \<and> EvDeliverInput \<notin> set tr"
proof -
  from assms(3) obtain pd where pd: "m_preDecode this = Some pd" by auto
  have "Receive NDEBUG padding c this inSample w =
      Some (Inr (S_OK, w2,
                 [EvMemset (sint (GetActualDataLength inSample)) (sint padding),
                  EvUpdateTime start (adjusted_stop this start stop0)] @
                 [EvInitializeOutputSample,
                  EvDecode 0 (GetActualDataLength inSample)]))"
    using assms(1,2,4-7) pd
      Receive_loop_need_more_input [OF assms(8-11)]
    by (auto simp: Receive_def Let_def)
  then show ?thesis by simp
qed

theorem Receive_need_more_input_witness:
  "Receive False 8 hungry_decoder decoding_filter roomy_sample 0 =
     Some (Inr (S_OK, 0,
                [EvMemset 4096 8, EvUpdateTime 0 400000, EvInitializeOutputSample,
                 EvDecode 0 4096]))"
proof -
  have h: "dwStreamId roomy_sample = AM_STREAM_MEDIA"
    "m_decoder decoding_filter \<noteq> None" "m_preDecode decoding_filter \<noteq> None"
    "\<not> FAILED (GetPointer roomy_sample)"
    "False \<or> \<not> GetSize roomy_sample <s GetActualDataLength roomy_sample + 8"
    "GetTime roomy_sample = (S_OK, 0, 400000)" "\<not> FAILED S_OK"
    "0 <s GetActualDataLength roomy_sample"
    "InitializeOutputSample hungry_decoder 0 = (S_OK, 0)" "\<not> FAILED S_OK"
    "Decode hungry_decoder 0 0 (GetActualDataLength roomy_sample) 0
       (adjusted_stop decoding_filter 0 400000) = ((S_FALSE, 4096), 0)"
    by (simp_all add: roomy_sample_def full_sample_def decoding_filter_def
        level51_stream_def hungry_decoder_def decoder_with_def FAILED_codes word_sless_alt)
  have l: "GetActualDataLength roomy_sample = 4096"
    and s: "adjusted_stop decoding_filter 0 400000 = 400000"
    by (simp_all add: roomy_sample_def full_sample_def adjusted_stop_def word_sle_eq)
  from Receive_need_more_input [OF h]
  obtain tr where
    r: "Receive False 8 hungry_decoder decoding_filter roomy_sample 0
          = Some (Inr (S_OK, 0, tr))" by blast
  have "Receive False 8 hungry_decoder decoding_filter roomy_sample 0 =
     Some (Inr (S_OK, 0,
                [EvMemset 4096 8, EvUpdateTime 0 400000, EvInitializeOutputSample,
                 EvDecode 0 4096]))"
    using h l s Receive_loop_need_more_input [of 4096 hungry_decoder 0 S_OK 0 0 0 400000 4096 0]
    by (simp add: Receive_def decoding_filter_def level51_stream_def)
  with r show ?thesis by simp
qed

lemma Receive_loop_greedy_decoder:
  "0 <s dataRemaining \<Longrightarrow>
     Receive_loop greedy_decoder start stop r dataStart dataRemaining w tr =
       Some (S_OK, Suc w,
             tr @ [EvInitializeOutputSample, EvDecode dataStart dataRemaining,
                   EvDisplayNextFrame, EvDeliver])"
  by (subst Receive_loop.simps)
     (simp add: greedy_decoder_def decoder_with_def FAILED_codes HRESULT_distinct
        Receive_loop_done)

text \<open>
  Claim C6 at a failing input. The sample's payload of 4096 bytes fills its buffer of
  4096 bytes and the padding is 8 bytes. In a build without assertions \<open>Receive\<close>
  accepts the sample, decodes it and returns \<open>S_OK\<close>, and the zero fill it performed
  covers the 8 bytes from offset 4096 on, beyond the buffer. In a build with assertions
  the same sample aborts at \<open>assert(false)\<close>.
\<close>

theorem Receive_padding_beyond_buffer:
  "Receive True 8 greedy_decoder decoding_filter full_sample 0 =
     Some (Inr (S_OK, 1,
                [EvMemset 4096 8, EvUpdateTime 0 400000, EvInitializeOutputSample,
                 EvDecode 0 4096, EvDisplayNextFrame, EvDeliver]))
   \<and> sint (GetSize full_sample) = 4096
   \<and> \<not> write_in_bounds (sint (GetSize full_sample)) (EvMemset 4096 8)
   \<and> Receive False 8 greedy_decoder decoding_filter full_sample 0 = Some (Inl AssertionFailed)"
  by (simp add: Receive_def full_sample_def decoding_filter_def level51_stream_def
      AM_STREAM_MEDIA_def FAILED_codes Receive_loop_greedy_decoder word_sless_alt
      word_sle_eq INT64_MIN_def adjusted_stop_def)


end
